theory Spec2Isabelle
  imports Main "HOL-Library.Word"
begin

unbundle bit_operations_syntax

section \<open>Frame timer\<close>

text \<open>
  The library is compiled for POSIX terminals; the embedding fixes the LP64 data model of
  Linux on x86-64: \<open>time_t\<close> and \<open>long\<close> (the two fields of \<open>struct timespec\<close>) are
  64-bit two's complement integers, \<open>uint64_t\<close> is an unsigned 64-bit integer. Both are
  \<open>64 word\<close>; \<open>sint\<close> reads the signed fields, \<open>uint\<close> the unsigned threshold.
\<close>

record timespec =
  tv_sec :: "64 word"
  tv_nsec :: "64 word"

text \<open>
  Modelled from the spec: the macro \<open>NANOS_PER_SEC\<close> is defined in \<open>mycutils.h\<close>, which
  is not among the sources. The spec gives its value (``seconds component multiplied by
  1e9''); as an integer constant it is promoted to \<open>long\<close> in the product with
  \<open>tv_sec\<close>.
\<close>

definition NANOS_PER_SEC :: "64 word" where
  "NANOS_PER_SEC = 1000000000"

text \<open>
  \<open>check_timer\<close> (src/mycutils.c:18, src/main.c:119). The instant that
  \<open>clock_gettime\<close> stores into \<open>current\<close> is the first argument. The two revisions
  differ only in how the result of the comparison is returned. The left side of the
  comparison is a \<open>long\<close>, the right side a \<open>uint64_t\<close>: C converts the left side to
  unsigned, which is the order of \<open>64 word\<close>.
\<close>

definition elapsed :: "timespec \<Rightarrow> timespec \<Rightarrow> timespec" where
  "elapsed current start =
     \<lparr>tv_sec = tv_sec current - tv_sec start,
      tv_nsec = tv_nsec current - tv_nsec start\<rparr>"

definition elapsed_nanos :: "timespec \<Rightarrow> timespec \<Rightarrow> 64 word" where
  "elapsed_nanos current start =
     (let e = elapsed current start in tv_sec e * NANOS_PER_SEC + tv_nsec e)"

definition check_timer :: "timespec \<Rightarrow> timespec \<Rightarrow> 64 word \<Rightarrow> bool" where
  "check_timer current start wait_time =
     (if elapsed_nanos current start < wait_time then False else True)"

text \<open>
  The elapsed duration as a mathematical integer, and the range of a 64-bit signed
  integer. A signed operation overflows when its exact result leaves that range.
\<close>

definition delta_ns :: "timespec \<Rightarrow> timespec \<Rightarrow> int" where
  "delta_ns current start =
     (sint (tv_sec current) - sint (tv_sec start)) * 1000000000
       + (sint (tv_nsec current) - sint (tv_nsec start))"

definition fits_long :: "int \<Rightarrow> bool" where
  "fits_long k \<longleftrightarrow> - (2 ^ 63) \<le> k \<and> k < 2 ^ 63"

text \<open>A normalised instant has its nanoseconds in \<open>[0, 10^9)\<close>.\<close>

definition normalised :: "timespec \<Rightarrow> bool" where
  "normalised ts \<longleftrightarrow> 0 \<le> sint (tv_nsec ts) \<and> sint (tv_nsec ts) < 1000000000"

text \<open>
  The largest distance in seconds between two instants for which every step of the
  computation stays in range: about 292 years, or 2562047 hours.
\<close>

definition MAX_SPAN :: int where
  "MAX_SPAN = 9223372035"

definition in_span :: "timespec \<Rightarrow> timespec \<Rightarrow> bool" where
  "in_span current start \<longleftrightarrow>
     normalised current \<and> normalised start \<and>
     \<bar>sint (tv_sec current) - sint (tv_sec start)\<bar> \<le> MAX_SPAN"

section \<open>Raw single-character read\<close>

text \<open>
  \<open>struct termios\<close> as glibc declares it on Linux: four flag words, the line
  discipline, \<open>NCCS\<close> control characters and two speeds. The flag and index constants
  come from the system header \<open>termios.h\<close> (Linux values).
\<close>

record termios =
  c_iflag :: "32 word"
  c_oflag :: "32 word"
  c_cflag :: "32 word"
  c_lflag :: "32 word"
  c_line :: "8 word"
  c_cc :: "8 word list"
  c_ispeed :: "32 word"
  c_ospeed :: "32 word"

definition NCCS :: nat where "NCCS = 32"
definition ICANON :: "32 word" where "ICANON = 2"
definition ECHO :: "32 word" where "ECHO = 8"
definition VTIME :: nat where "VTIME = 5"
definition VMIN :: nat where "VMIN = 6"

text \<open>\<open>struct termios old = {0}\<close>.\<close>

definition zero_termios :: termios where
  "zero_termios =
     \<lparr>c_iflag = 0, c_oflag = 0, c_cflag = 0, c_lflag = 0, c_line = 0,
      c_cc = replicate NCCS 0, c_ispeed = 0, c_ospeed = 0\<rparr>"

text \<open>
  What the four system calls of one \<open>scanc_nowait\<close> call do: whether \<open>tcgetattr\<close>
  and the two \<open>tcsetattr\<close> calls succeed, and what \<open>read(0, &buf, 1)\<close> delivers (one
  byte, end of input with nothing stored, or an error).
\<close>

datatype read_result = Got char | End_Of_Input | Read_Failed

record tty_calls =
  tcgetattr_ok :: bool
  tcsetattr_now_ok :: bool
  read_result :: read_result
  tcsetattr_drain_ok :: bool

definition NUL :: char where
  "NUL = CHR 0x00"

text \<open>
  \<open>scanc_nowait\<close> (src/mycutils.c:198, src/main.c:316, identical). The argument
  \<open>dev\<close> is the setting of the input device; the result is the character returned, the
  setting of the device afterwards and the \<open>perror\<close> messages. A successful
  \<open>tcsetattr\<close> makes the device's setting the structure passed to it. The variable
  \<open>old\<close> is modified in place and is what the last \<open>tcsetattr\<close> installs.
\<close>

definition scanc_nowait :: "tty_calls \<Rightarrow> termios \<Rightarrow> char \<times> termios \<times> string list" where
  "scanc_nowait env dev =
     (let old = (if tcgetattr_ok env then dev else zero_termios);
          err = (if tcgetattr_ok env then [] else [''tcsetattr()'']);
          old = old\<lparr>c_lflag := c_lflag old AND NOT ICANON\<rparr>;
          old = old\<lparr>c_lflag := c_lflag old AND NOT ECHO\<rparr>;
          old = old\<lparr>c_cc := (c_cc old)[VMIN := 1]\<rparr>;
          old = old\<lparr>c_cc := (c_cc old)[VTIME := 0]\<rparr>;
          dev = (if tcsetattr_now_ok env then old else dev);
          err = (if tcsetattr_now_ok env then err else err @ [''tcsetattr ICANON'']);
          buf = (case read_result env of
                   Got c \<Rightarrow> c | End_Of_Input \<Rightarrow> NUL | Read_Failed \<Rightarrow> NUL);
          err = (case read_result env of Read_Failed \<Rightarrow> err @ [''read()''] | _ \<Rightarrow> err);
          old = old\<lparr>c_lflag := c_lflag old OR ICANON\<rparr>;
          old = old\<lparr>c_lflag := c_lflag old OR ECHO\<rparr>;
          dev = (if tcsetattr_drain_ok env then old else dev);
          err = (if tcsetattr_drain_ok env then err else err @ [''tcsetattr ~ICANON''])
      in (buf, dev, err))"

text \<open>A keystroke: all terminal calls succeed and \<open>read\<close> delivers the byte.\<close>

definition key :: "char \<Rightarrow> tty_calls" where
  "key c = \<lparr>tcgetattr_ok = True, tcsetattr_now_ok = True, read_result = Got c,
            tcsetattr_drain_ok = True\<rparr>"

text \<open>
  A terminal in canonical mode whose echo has been switched off (\<open>stty -echo\<close>): the
  usual local flags \<open>0x8A3B\<close> without \<open>ECHO\<close>.
\<close>

definition echo_off :: termios where
  "echo_off = zero_termios\<lparr>c_lflag := 0x8A33, c_cc := (replicate NCCS 0)[VMIN := 1]\<rparr>"

text \<open>The same terminal with echo on, as a shell leaves it.\<close>

definition cooked :: termios where
  "cooked = zero_termios\<lparr>c_lflag := 0x8A3B, c_cc := (replicate NCCS 0)[VMIN := 1]\<rparr>"

section \<open>Heap blocks and C strings\<close>

text \<open>
  A heap block is the list of its bytes; a byte that was never written is \<open>None\<close>. A
  pointer is a block or \<open>NULL\<close>. Reading or writing outside a block, through \<open>NULL\<close>,
  or reading a byte or a pointer variable that was never written has no defined result
  in C: the model returns a fault. \<open>free\<close> has no effect on the values computed and is left out.
\<close>

datatype fault = Null_Pointer | Out_Of_Bounds | Indeterminate_Read | Counter_Wraps

type_synonym block = "char option list"
type_synonym ptr = "block option"

definition bind_res :: "fault + 'a \<Rightarrow> ('a \<Rightarrow> fault + 'b) \<Rightarrow> fault + 'b" where
  "bind_res m f = (case m of Inl e \<Rightarrow> Inl e | Inr x \<Rightarrow> f x)"

definition PTRDIFF_MAX :: nat where "PTRDIFF_MAX = 2 ^ 63 - 1"
definition INT_MAX :: nat where "INT_MAX = 2 ^ 31 - 1"

text \<open>
  \<open>malloc\<close> succeeds with a block of unwritten bytes, except that a request above
  \<open>PTRDIFF_MAX\<close> returns \<open>NULL\<close>. The sources never examine its result.
\<close>

definition malloc :: "nat \<Rightarrow> ptr" where
  "malloc n = (if n \<le> PTRDIFF_MAX then Some (replicate n None) else None)"

text \<open>\<open>p[i] = c\<close> and \<open>p[i]\<close>.\<close>

definition poke :: "ptr \<Rightarrow> nat \<Rightarrow> char \<Rightarrow> fault + ptr" where
  "poke p i c =
     (case p of
        None \<Rightarrow> Inl Null_Pointer
      | Some b \<Rightarrow> if i < length b then Inr (Some (b[i := Some c])) else Inl Out_Of_Bounds)"

definition peek :: "ptr \<Rightarrow> nat \<Rightarrow> fault + char" where
  "peek p i =
     (case p of
        None \<Rightarrow> Inl Null_Pointer
      | Some b \<Rightarrow>
          if i < length b
          then (case b ! i of None \<Rightarrow> Inl Indeterminate_Read | Some c \<Rightarrow> Inr c)
          else Inl Out_Of_Bounds)"

text \<open>The string a block holds: its bytes up to the first \<open>NUL\<close>.\<close>

fun c_str :: "block \<Rightarrow> fault + string" where
  "c_str [] = Inl Out_Of_Bounds"
| "c_str (None # b) = Inl Indeterminate_Read"
| "c_str (Some c # b) =
     (if c = NUL then Inr [] else bind_res (c_str b) (\<lambda>s. Inr (c # s)))"

definition c_string :: "ptr \<Rightarrow> fault + string" where
  "c_string p = (case p of None \<Rightarrow> Inl Null_Pointer | Some b \<Rightarrow> c_str b)"

definition strlen :: "ptr \<Rightarrow> fault + nat" where
  "strlen p = bind_res (c_string p) (\<lambda>s. Inr (length s))"

text \<open>Storing a run of bytes at the start of a block.\<close>

definition write_bytes :: "ptr \<Rightarrow> string \<Rightarrow> fault + ptr" where
  "write_bytes p cs =
     (case p of
        None \<Rightarrow> Inl Null_Pointer
      | Some b \<Rightarrow>
          if length cs \<le> length b then Inr (Some (map Some cs @ drop (length cs) b))
          else Inl Out_Of_Bounds)"

definition strcpy :: "ptr \<Rightarrow> ptr \<Rightarrow> fault + ptr" where
  "strcpy dst src = bind_res (c_string src) (\<lambda>s. write_bytes dst (s @ [NUL]))"

text \<open>A string literal, and any block that holds exactly a string and its terminator.\<close>

definition literal :: "string \<Rightarrow> ptr" where
  "literal s = Some (map Some (s @ [NUL]))"

section \<open>Formatting\<close>

text \<open>
  The library formats with \<open>%s\<close> and \<open>%c\<close> only. A call \<open>sfmt(&p, "%s%c", a, b)\<close> is
  written \<open>sfmt [Pct_s a, Pct_c b]\<close>: each directive with its argument. \<open>vsnprintf\<close>
  gives the characters produced, before the terminator.

  \<open>sfmt\<close> (src/main.c:468; \<open>stringf\<close> in src/mycutils.c:367 is the same function):
  \<open>bytes = vsnprintf(NULL, 0, ...) + 1\<close>, \<open>malloc(bytes)\<close>, \<open>vsnprintf\<close> into the
  block. \<open>vsnprintf\<close> returns an \<open>int\<close>; for an output longer than \<open>INT_MAX\<close> it
  returns \<open>-1\<close>, \<open>bytes\<close> is then 0 and nothing is written to the block.
\<close>

datatype fmt_arg = Pct_s ptr | Pct_c char

fun vsnprintf :: "fmt_arg list \<Rightarrow> fault + string" where
  "vsnprintf [] = Inr []"
| "vsnprintf (Pct_s p # args) =
     bind_res (c_string p) (\<lambda>s. bind_res (vsnprintf args) (\<lambda>r. Inr (s @ r)))"
| "vsnprintf (Pct_c c # args) = bind_res (vsnprintf args) (\<lambda>r. Inr (c # r))"

definition sfmt :: "fmt_arg list \<Rightarrow> fault + ptr" where
  "sfmt args =
     bind_res (vsnprintf args) (\<lambda>out.
       if length out \<le> INT_MAX
       then write_bytes (malloc (length out + 1)) (out @ [NUL])
       else Inr (malloc 0))"

text \<open>
  \<open>fprintf_clear\<close> (src/main.c:217) builds the line as \<open>sfmt\<close> does, takes its
  \<open>strlen\<close> to move the cursor and prints it. The result is the line shown; the
  \<open>tput\<close> commands that clear the terminal line and move the cursor are not modelled.
\<close>

definition fprintf_clear :: "fmt_arg list \<Rightarrow> fault + string" where
  "fprintf_clear args = bind_res (sfmt args) (\<lambda>prompt. c_string prompt)"

text \<open>
  \<open>stringf\<close> (src/mycutils.c:367) and \<open>promptf\<close> (src/mycutils.c:100) of the earlier
  revision: the same statements as \<open>sfmt\<close> and \<open>fprintf_clear\<close>.
\<close>

definition stringf :: "fmt_arg list \<Rightarrow> fault + ptr" where
  "stringf args =
     bind_res (vsnprintf args) (\<lambda>out.
       if length out \<le> INT_MAX
       then write_bytes (malloc (length out + 1)) (out @ [NUL])
       else Inr (malloc 0))"

definition promptf :: "fmt_arg list \<Rightarrow> fault + string" where
  "promptf args = bind_res (stringf args) (\<lambda>prompt. c_string prompt)"

section \<open>Deleting characters\<close>

text \<open>
  \<open>sdelelem\<close> (src/main.c:501). \<open>elem\<close> and the loop counter \<open>c\<close> are \<open>unsigned\<close>
  (32 bits), \<open>strlen\<close> is a \<open>size_t\<close> (64 bits): \<open>elem + 1\<close> wraps at \<open>2^32\<close>,
  \<open>strlen(*sp) - elem\<close> at \<open>2^64\<close>. The loop stores \<open>(*sp)[c]\<close> at index \<open>c\<close> of
  either part. A string of \<open>2^32\<close> characters or more is beyond the counter; the model
  returns a fault for it.
\<close>

fun sdelelem_loop :: "ptr \<Rightarrow> 32 word \<Rightarrow> nat list \<Rightarrow> ptr \<times> ptr \<Rightarrow> fault + ptr \<times> ptr" where
  "sdelelem_loop sp elem [] parts = Inr parts"
| "sdelelem_loop sp elem (c # cs) (to_elem, from_elem) =
     bind_res (if (of_nat c :: 32 word) < elem
               then bind_res (peek sp c) (poke to_elem c) else Inr to_elem) (\<lambda>to_elem.
     bind_res (if elem < (of_nat c :: 32 word)
               then bind_res (peek sp c) (poke from_elem c) else Inr from_elem) (\<lambda>from_elem.
     sdelelem_loop sp elem cs (to_elem, from_elem)))"

definition sdelelem :: "ptr \<Rightarrow> 32 word \<Rightarrow> fault + ptr" where
  "sdelelem sp elem =
     bind_res (strlen sp) (\<lambda>n.
       let len = (of_nat n :: 64 word);
           to_elem = malloc (unat (ucast (elem + 1) :: 64 word));
           from_elem = malloc (unat (len - ucast elem))
       in if 2 ^ 32 \<le> n then Inl Counter_Wraps
          else
            bind_res (sdelelem_loop sp elem [0..<n] (to_elem, from_elem)) (\<lambda>(to_elem, from_elem).
            bind_res (poke to_elem (unat elem) NUL) (\<lambda>to_elem.
            bind_res (poke from_elem (unat (len - ucast elem - 1)) NUL) (\<lambda>from_elem.
            sfmt [Pct_s to_elem, Pct_s from_elem]))))"

text \<open>
  \<open>stringrmlast\<close> (src/mycutils.c:438), which the earlier revision of the editor calls
  on backspace. It acts only on a non-empty string; then it copies the string into a
  block of \<open>strlen\<close> bytes and writes the shortened string into a block of
  \<open>strlen - 1\<close> bytes.
\<close>

fun stringrmlast_loop :: "ptr \<Rightarrow> nat list \<Rightarrow> ptr \<Rightarrow> fault + ptr" where
  "stringrmlast_loop temps [] s = Inr s"
| "stringrmlast_loop temps (c # cs) s =
     bind_res (bind_res (peek temps c) (poke s c)) (stringrmlast_loop temps cs)"

definition stringrmlast :: "ptr \<Rightarrow> fault + ptr" where
  "stringrmlast s =
     bind_res (strlen s) (\<lambda>n.
       if n > 0 then
         bind_res (strcpy (malloc n) s) (\<lambda>temps.
         bind_res (strlen temps) (\<lambda>m.
         bind_res (stringrmlast_loop temps [0..<m - 1] (malloc (m - 1))) (\<lambda>s.
         poke s (m - 1) NUL)))
       else Inr s)"

section \<open>The line editor\<close>

text \<open>
  \<open>scans\<close> (src/main.c:268), the revision the example program \<open>main\<close> is built with.
  The state of the loop: the caller's \<open>*buf\<close>, the display copy \<open>btemp\<close>, the setting of
  the input device, the lines shown by \<open>fprintf_clear\<close> and the \<open>perror\<close> messages.
  Each iteration consumes the system-call outcomes of one \<open>scanc_nowait\<close> call; when
  none is left the loop is blocked in \<open>read\<close> (\<open>Running\<close>).

  src/mycutils.c:148 holds the earlier revision of \<open>scans\<close>, embedded below as
  \<open>scans_mycutils\<close>.
\<close>

record editor =
  buf :: ptr
  btemp :: ptr
  tty :: termios
  shown :: "string list"
  errlog :: "string list"

datatype run = Running editor | Returned editor | Crashed fault

definition scans_step :: "string \<Rightarrow> editor \<Rightarrow> tty_calls \<Rightarrow> run" where
  "scans_step prompt st env =
     (case fprintf_clear [Pct_s (literal prompt), Pct_s (btemp st)] of
        Inl f \<Rightarrow> Crashed f
      | Inr line \<Rightarrow>
          (case scanc_nowait env (tty st) of (userin, dev, err) \<Rightarrow>
             let st = st\<lparr>shown := shown st @ [line], tty := dev, errlog := errlog st @ err\<rparr>
             in if userin = CHR 0x7F then
                  (case bind_res (strlen (btemp st))
                          (\<lambda>n. sdelelem (btemp st) (ucast ((of_nat n :: 64 word) - 1))) of
                     Inl f \<Rightarrow> Crashed f
                   | Inr t \<Rightarrow> Running (st\<lparr>btemp := t\<rparr>))
                else if userin = CHR 0x0A then Returned st
                else
                  (case sfmt [Pct_s (btemp st), Pct_c userin] of
                     Inl f \<Rightarrow> Crashed f
                   | Inr b \<Rightarrow>
                       (case sfmt [Pct_s b] of
                          Inl f \<Rightarrow> Crashed f
                        | Inr t \<Rightarrow> Running (st\<lparr>buf := b, btemp := t\<rparr>)))))"

fun scans_loop :: "string \<Rightarrow> editor \<Rightarrow> tty_calls list \<Rightarrow> run" where
  "scans_loop prompt st [] = Running st"
| "scans_loop prompt st (env # envs) =
     (case scans_step prompt st env of
        Running st' \<Rightarrow> scans_loop prompt st' envs
      | Returned st' \<Rightarrow> Returned st'
      | Crashed f \<Rightarrow> Crashed f)"

definition scans :: "string \<Rightarrow> termios \<Rightarrow> tty_calls list \<Rightarrow> run" where
  "scans prompt dev envs =
     (case poke (malloc 1) 0 NUL of
        Inl f \<Rightarrow> Crashed f
      | Inr t \<Rightarrow>
          scans_loop prompt
            \<lparr>buf = malloc 1, btemp = t, tty = dev, shown = [], errlog = []\<rparr> envs)"

text \<open>
  \<open>scans\<close> of src/mycutils.c:148. Nothing is stored in \<open>btemp\<close> before the first
  prompt; backspace calls \<open>stringrmlast\<close>; the default branch builds \<open>*buf\<close> with
  \<open>stringf\<close> and copies it with \<open>strcpy\<close> into \<open>malloc(sizeof(char) * strlen(*buf))\<close>.
\<close>

definition scans_mycutils_step :: "string \<Rightarrow> editor \<Rightarrow> tty_calls \<Rightarrow> run" where
  "scans_mycutils_step prompt st env =
     (case promptf [Pct_s (literal prompt), Pct_s (btemp st)] of
        Inl f \<Rightarrow> Crashed f
      | Inr line \<Rightarrow>
          (case scanc_nowait env (tty st) of (userin, dev, err) \<Rightarrow>
             let st = st\<lparr>shown := shown st @ [line], tty := dev, errlog := errlog st @ err\<rparr>
             in if userin = CHR 0x7F then
                  (case stringrmlast (btemp st) of
                     Inl f \<Rightarrow> Crashed f
                   | Inr t \<Rightarrow> Running (st\<lparr>btemp := t\<rparr>))
                else if userin = CHR 0x0A then Returned st
                else
                  (case stringf [Pct_s (btemp st), Pct_c userin] of
                     Inl f \<Rightarrow> Crashed f
                   | Inr b \<Rightarrow>
                       (case bind_res (strlen b) (\<lambda>n. strcpy (malloc n) b) of
                          Inl f \<Rightarrow> Crashed f
                        | Inr t \<Rightarrow> Running (st\<lparr>buf := b, btemp := t\<rparr>)))))"

fun scans_mycutils_loop :: "string \<Rightarrow> editor \<Rightarrow> tty_calls list \<Rightarrow> run" where
  "scans_mycutils_loop prompt st [] = Running st"
| "scans_mycutils_loop prompt st (env # envs) =
     (case scans_mycutils_step prompt st env of
        Running st' \<Rightarrow> scans_mycutils_loop prompt st' envs
      | Returned st' \<Rightarrow> Returned st'
      | Crashed f \<Rightarrow> Crashed f)"

definition scans_mycutils :: "string \<Rightarrow> termios \<Rightarrow> tty_calls list \<Rightarrow> run" where
  "scans_mycutils prompt dev envs =
     scans_mycutils_loop prompt
       \<lparr>buf = malloc 1, btemp = malloc 1, tty = dev, shown = [], errlog = []\<rparr> envs"

text \<open>
  A read that fails while the other terminal calls succeed, and an editor state in which
  \<open>btemp\<close> holds exactly the string \<open>s\<close> and \<open>*buf\<close> is still unwritten. For the
  empty string this is the state the earlier editor starts in where the byte \<open>malloc\<close>
  handed out for \<open>btemp\<close> is 0.
\<close>

definition failed_read :: tty_calls where
  "failed_read = \<lparr>tcgetattr_ok = True, tcsetattr_now_ok = True, read_result = Read_Failed,
                  tcsetattr_drain_ok = True\<rparr>"

definition holding :: "string \<Rightarrow> termios \<Rightarrow> editor" where
  "holding s dev = \<lparr>buf = malloc 1, btemp = literal s, tty = dev, shown = [], errlog = []\<rparr>"

text \<open>
  What the caller holds when \<open>scans\<close> has returned: the block \<open>*buf\<close> points to, and
  the string read from it.
\<close>

definition returned_block :: "run \<Rightarrow> ptr option" where
  "returned_block r = (case r of Returned st \<Rightarrow> Some (buf st) | _ \<Rightarrow> None)"

definition returned_string :: "run \<Rightarrow> (fault + string) option" where
  "returned_string r = (case r of Returned st \<Rightarrow> Some (c_string (buf st)) | _ \<Rightarrow> None)"

text \<open>
  The state after the prompt was shown and one character was read, before the
  \<open>switch\<close>; the prompt passed by \<open>main\<close>; the characters of a prompt as shown.
\<close>

definition seen :: "string \<Rightarrow> editor \<Rightarrow> tty_calls \<Rightarrow> editor" where
  "seen line st env =
     (case scanc_nowait env (tty st) of (userin, dev, err) \<Rightarrow>
        st\<lparr>shown := shown st @ [line], tty := dev, errlog := errlog st @ err\<rparr>)"

definition file_prompt :: string where
  "file_prompt = ''Write a name for the file: ''"

definition prompt_text :: "string \<Rightarrow> string" where
  "prompt_text prompt = takeWhile (\<lambda>c. c \<noteq> NUL) prompt"

text \<open>
  The invariant of the editor loop: \<open>btemp\<close> holds exactly a string of at most
  \<open>INT_MAX\<close> characters, and unless that string is empty, \<open>*buf\<close> holds a string that
  begins with it.
\<close>

definition editor_inv :: "editor \<Rightarrow> bool" where
  "editor_inv st \<longleftrightarrow>
     (\<exists>s. btemp st = literal s \<and> NUL \<notin> set s \<and> length s \<le> INT_MAX \<and>
          (s = [] \<or> (\<exists>r. c_string (buf st) = Inr (s @ r))))"

section \<open>Starting the timer\<close>

text \<open>
  \<open>start_timer\<close>. The outcome of \<open>clock_gettime\<close> is the argument \<open>clock\<close>
  (\<open>None\<close> when it returns \<open>-1\<close>), \<open>err\<close> is the text of \<open>strerror(errno)\<close>.
  A call returns to its caller, ends the process with an exit status, or does something
  C leaves undefined; each carries what was written to \<open>stderr\<close> before.
\<close>

datatype 'a outcome = Returns 'a | Exits nat | Faults fault

definition EXIT_FAILURE :: nat where
  "EXIT_FAILURE = 1"

text \<open>
  What \<open>time\<close> and \<open>ctime\<close> deliver to \<open>timestamp\<close>: no calendar time, no
  conversion, or the text of the stamp (without its newline).

  \<open>timestamp\<close> of src/mycutils.c:60: in the first two cases it prints its own message
  and calls \<open>exit(EXIT_FAILURE)\<close>, otherwise it returns the stamp.
\<close>

datatype calendar = Stamp string | Time_Unavailable | Conversion_Failed

definition timestamp :: "calendar \<Rightarrow> string outcome \<times> string list" where
  "timestamp cal =
     (case cal of
        Time_Unavailable \<Rightarrow>
          (Exits EXIT_FAILURE,
           [''ERROR: In function timestamp(): Calender time is not available''])
      | Conversion_Failed \<Rightarrow>
          (Exits EXIT_FAILURE,
           [''ERROR: In function timestamp(): Failure to convert the current time to a string.''])
      | Stamp s \<Rightarrow> (Returns s, []))"

text \<open>
  \<open>timestamp\<close> of src/main.c:163. Without calendar time it prints and exits as
  before. Otherwise it calls \<open>ctime_r(&current_time, stamp)\<close>, where the pointer
  \<open>stamp\<close> is declared (src/main.c:166) and never assigned: whatever the calendar
  delivers, the conversion stores through a pointer that was never written.
\<close>

definition timestamp_main :: "calendar \<Rightarrow> string outcome \<times> string list" where
  "timestamp_main cal =
     (case cal of
        Time_Unavailable \<Rightarrow>
          (Exits EXIT_FAILURE,
           [''ERROR: In function timestamp(): Calender time is not available''])
      | Conversion_Failed \<Rightarrow> (Faults Indeterminate_Read, [])
      | Stamp s \<Rightarrow> (Faults Indeterminate_Read, []))"

definition start_timer_message :: "string \<Rightarrow> string \<Rightarrow> string" where
  "start_timer_message stamp err =
     ''[ '' @ stamp @ '' ] ERROR: in function start_timer(): '' @ err"

text \<open>
  The revision of src/main.c:143: return when the clock was read, otherwise print the
  message and \<open>exit(EXIT_FAILURE)\<close>. \<open>timestamp()\<close> is an argument of \<open>fprintf\<close>, so
  it runs before the message is printed, and what it does ends the call.
\<close>

definition start_timer ::
  "timespec option \<Rightarrow> string \<Rightarrow> calendar \<Rightarrow> timespec \<Rightarrow> timespec outcome \<times> string list"
where
  "start_timer clock err cal ts =
     (case clock of
        Some now \<Rightarrow> (Returns now, [])
      | None \<Rightarrow>
          (case timestamp_main cal of
             (Exits status, log) \<Rightarrow> (Exits status, log)
           | (Faults f, log) \<Rightarrow> (Faults f, log)
           | (Returns stamp, log) \<Rightarrow>
               (Exits EXIT_FAILURE, log @ [start_timer_message stamp err])))"

text \<open>
  The revision of src/mycutils.c:45: the message is printed and the function falls off
  its end, so the caller continues with the \<open>timespec\<close> as it was before the call.
\<close>

definition start_timer_mycutils ::
  "timespec option \<Rightarrow> string \<Rightarrow> calendar \<Rightarrow> timespec \<Rightarrow> timespec outcome \<times> string list"
where
  "start_timer_mycutils clock err cal ts =
     (case clock of
        Some now \<Rightarrow> (Returns now, [])
      | None \<Rightarrow>
          (case timestamp cal of
             (Exits status, log) \<Rightarrow> (Exits status, log)
           | (Faults f, log) \<Rightarrow> (Faults f, log)
           | (Returns stamp, log) \<Rightarrow>
               (Returns ts, log @ [start_timer_message stamp err])))"

section \<open>Properties of the frame timer\<close>

subsection \<open>Exact signed arithmetic\<close>

lemma sint_sub_exact:
  fixes a b :: "64 word"
  assumes "fits_long (sint a - sint b)"
  shows "sint (a - b) = sint a - sint b"
  using assms unfolding fits_long_def
  by (simp add: sint_word_ariths signed_take_bit_int_eq_self)

lemma sint_add_exact:
  fixes a b :: "64 word"
  assumes "fits_long (sint a + sint b)"
  shows "sint (a + b) = sint a + sint b"
  using assms unfolding fits_long_def
  by (simp add: sint_word_ariths signed_take_bit_int_eq_self)

lemma sint_mult_exact:
  fixes a b :: "64 word"
  assumes "fits_long (sint a * sint b)"
  shows "sint (a * b) = sint a * sint b"
  using assms unfolding fits_long_def
  by (simp add: sint_word_ariths signed_take_bit_int_eq_self)

lemma sint_NANOS_PER_SEC: "sint NANOS_PER_SEC = 1000000000"
  by (simp add: NANOS_PER_SEC_def)

lemma span_steps:
  assumes "in_span current start"
  shows "fits_long (sint (tv_sec current) - sint (tv_sec start))"
    and "fits_long (sint (tv_nsec current) - sint (tv_nsec start))"
    and "fits_long ((sint (tv_sec current) - sint (tv_sec start)) * 1000000000)"
    and "fits_long (delta_ns current start)"
proof -
  define d where "d = sint (tv_sec current) - sint (tv_sec start)"
  define n where "n = sint (tv_nsec current) - sint (tv_nsec start)"
  have d: "- 9223372035 \<le> d" "d \<le> 9223372035"
    using assms unfolding in_span_def MAX_SPAN_def d_def by linarith+
  have n: "- 1000000000 < n" "n < 1000000000"
    using assms unfolding in_span_def normalised_def n_def by linarith+
  show "fits_long (sint (tv_sec current) - sint (tv_sec start))"
    using d unfolding fits_long_def d_def [symmetric] by simp
  show "fits_long (sint (tv_nsec current) - sint (tv_nsec start))"
    using n unfolding fits_long_def n_def [symmetric] by simp
  show "fits_long ((sint (tv_sec current) - sint (tv_sec start)) * 1000000000)"
    using d unfolding fits_long_def d_def [symmetric] by simp
  show "fits_long (delta_ns current start)"
    using d n unfolding fits_long_def delta_ns_def d_def [symmetric] n_def [symmetric] by simp
qed

lemma sint_elapsed_nanos:
  assumes "in_span current start"
  shows "sint (elapsed_nanos current start) = delta_ns current start"
proof -
  note s = span_steps [OF assms]
  have 1: "sint (tv_sec current - tv_sec start) = sint (tv_sec current) - sint (tv_sec start)"
    by (rule sint_sub_exact [OF s(1)])
  have 2: "sint (tv_nsec current - tv_nsec start) = sint (tv_nsec current) - sint (tv_nsec start)"
    by (rule sint_sub_exact [OF s(2)])
  have 3: "sint ((tv_sec current - tv_sec start) * NANOS_PER_SEC)
             = (sint (tv_sec current) - sint (tv_sec start)) * 1000000000"
    using sint_mult_exact [of "tv_sec current - tv_sec start" NANOS_PER_SEC] s(3)
    by (simp add: 1 sint_NANOS_PER_SEC)
  show ?thesis
    using sint_add_exact [of "(tv_sec current - tv_sec start) * NANOS_PER_SEC"
                             "tv_nsec current - tv_nsec start"] s(4)
    by (simp add: elapsed_nanos_def elapsed_def Let_def 1 2 3 delta_ns_def)
qed

subsection \<open>The comparison is unsigned\<close>

lemma check_timer_uint:
  "check_timer current start wait_time
     \<longleftrightarrow> uint wait_time \<le> uint (elapsed_nanos current start)"
  by (simp add: check_timer_def word_less_def not_less)

lemma check_timer_mod:
  assumes "in_span current start"
  shows "check_timer current start wait_time
           \<longleftrightarrow> uint wait_time \<le> delta_ns current start mod 2 ^ 64"
  using sint_elapsed_nanos [OF assms] uint_sint [of "elapsed_nanos current start"]
  by (simp add: check_timer_uint take_bit_eq_mod)

text \<open>
  Where the timer was started no later than the current instant, the unsigned
  comparison agrees with the comparison of the two durations: the answer is ``elapsed''
  exactly from the threshold on, the boundary included.
\<close>

lemma check_timer_nonneg:
  assumes "in_span current start" and "0 \<le> delta_ns current start"
  shows "check_timer current start wait_time \<longleftrightarrow> uint wait_time \<le> delta_ns current start"
proof -
  have "delta_ns current start < 2 ^ 64"
    using span_steps(4) [OF assms(1)] unfolding fits_long_def by simp
  then have "delta_ns current start mod 2 ^ 64 = delta_ns current start"
    using assms(2) by simp
  then show ?thesis
    by (simp add: check_timer_mod [OF assms(1)])
qed

text \<open>
  C1. The claim: for every start instant and every threshold \<open>T\<close>, \<open>check_timer\<close> is
  true if and only if the signed elapsed duration \<open>D\<close> is at least \<open>T\<close>. The code
  departs from it where \<open>D\<close> is negative: a timer started at second 10, read when the
  clock shows second 9 (\<open>D\<close> is minus one second), is reported as elapsed for a
  threshold of one second, because the negative \<open>long\<close> is converted to a huge
  \<open>uint64_t\<close> before the comparison.
\<close>

theorem check_timer_negative_elapsed:
  "delta_ns \<lparr>tv_sec = 9, tv_nsec = 0\<rparr> \<lparr>tv_sec = 10, tv_nsec = 0\<rparr> = - 1000000000
   \<and> check_timer \<lparr>tv_sec = 9, tv_nsec = 0\<rparr> \<lparr>tv_sec = 10, tv_nsec = 0\<rparr> 1000000000 = True"
  by (simp add: delta_ns_def check_timer_def elapsed_nanos_def elapsed_def NANOS_PER_SEC_def)

text \<open>
  C8. For two normalised instants at most \<open>MAX_SPAN\<close> seconds apart (more than 2.5
  million hours, in either direction), no step of the nanosecond delta in
  \<open>check_timer\<close> overflows a \<open>long\<close>: the two differences, the product with
  \<open>NANOS_PER_SEC\<close> and the final sum are in range, and the value computed is the exact
  signed duration.
\<close>

theorem elapsed_nanos_no_overflow:
  assumes "in_span current start"
  shows "fits_long (sint (tv_sec current) - sint (tv_sec start))
       \<and> fits_long (sint (tv_nsec current) - sint (tv_nsec start))
       \<and> fits_long ((sint (tv_sec current) - sint (tv_sec start)) * sint NANOS_PER_SEC)
       \<and> fits_long (delta_ns current start)
       \<and> sint (elapsed_nanos current start) = delta_ns current start"
  using span_steps [OF assms] sint_elapsed_nanos [OF assms]
  by (simp add: sint_NANOS_PER_SEC)

text \<open>
  Witness for C8: a timer started at 1700000000.999999999 and read three hours and
  one second later.
\<close>

theorem elapsed_nanos_no_overflow_witness:
  "in_span \<lparr>tv_sec = 1700010801, tv_nsec = 5\<rparr> \<lparr>tv_sec = 1700000000, tv_nsec = 999999999\<rparr>
   \<and> delta_ns \<lparr>tv_sec = 1700010801, tv_nsec = 5\<rparr> \<lparr>tv_sec = 1700000000, tv_nsec = 999999999\<rparr>
       = 10800000000006
   \<and> sint (elapsed_nanos \<lparr>tv_sec = 1700010801, tv_nsec = 5\<rparr>
                           \<lparr>tv_sec = 1700000000, tv_nsec = 999999999\<rparr>) = 10800000000006"
proof -
  have h: "in_span \<lparr>tv_sec = 1700010801, tv_nsec = 5\<rparr>
                   \<lparr>tv_sec = 1700000000, tv_nsec = 999999999\<rparr>"
    by (simp add: in_span_def normalised_def MAX_SPAN_def)
  have d: "delta_ns \<lparr>tv_sec = 1700010801, tv_nsec = 5\<rparr>
                    \<lparr>tv_sec = 1700000000, tv_nsec = 999999999\<rparr> = 10800000000006"
    by (simp add: delta_ns_def)
  show ?thesis
    using h d elapsed_nanos_no_overflow [OF h] by simp
qed

text \<open>
  C9, as claimed: with the start instant later than the current one, \<open>check_timer\<close> is
  true for every threshold. It is false at the largest threshold: a timer started 2
  nanoseconds after the current instant has the delta \<open>-2\<close>, which converts to
  \<open>2^64 - 2\<close>, below the threshold \<open>2^64 - 1\<close>.
\<close>

theorem check_timer_negative_counterexample:
  "in_span \<lparr>tv_sec = 0, tv_nsec = 0\<rparr> \<lparr>tv_sec = 0, tv_nsec = 2\<rparr>
   \<and> delta_ns \<lparr>tv_sec = 0, tv_nsec = 0\<rparr> \<lparr>tv_sec = 0, tv_nsec = 2\<rparr> = - 2
   \<and> \<not> check_timer \<lparr>tv_sec = 0, tv_nsec = 0\<rparr> \<lparr>tv_sec = 0, tv_nsec = 2\<rparr>
         18446744073709551615"
  by (simp add: in_span_def normalised_def MAX_SPAN_def delta_ns_def check_timer_def
        elapsed_nanos_def elapsed_def NANOS_PER_SEC_def)

text \<open>
  C9, amended: with a negative elapsed delta \<open>D\<close> (start instant later than the current
  one, within \<open>MAX_SPAN\<close>), \<open>check_timer\<close> is true exactly for the thresholds up to
  \<open>2^64 + D\<close>, the value of \<open>D\<close> converted to unsigned; this bound is at least
  \<open>2^63\<close>, so every threshold below \<open>2^63\<close> is reported as elapsed.
\<close>

theorem check_timer_negative_delta:
  assumes "in_span current start" and "delta_ns current start < 0"
  shows "(check_timer current start wait_time
            \<longleftrightarrow> uint wait_time \<le> 2 ^ 64 + delta_ns current start)
       \<and> 2 ^ 63 \<le> 2 ^ 64 + delta_ns current start"
proof -
  have lo: "- (2 ^ 63) \<le> delta_ns current start"
    using span_steps(4) [OF assms(1)] unfolding fits_long_def by simp
  then have "(delta_ns current start + 2 ^ 64) mod 2 ^ 64 = delta_ns current start + 2 ^ 64"
    using assms(2) by (intro mod_pos_pos_trivial) simp_all
  then have "delta_ns current start mod 2 ^ 64 = 2 ^ 64 + delta_ns current start"
    by simp
  then show ?thesis
    using lo by (simp add: check_timer_mod [OF assms(1)])
qed

theorem check_timer_negative_delta_witness:
  "in_span \<lparr>tv_sec = 9, tv_nsec = 0\<rparr> \<lparr>tv_sec = 10, tv_nsec = 0\<rparr>
   \<and> delta_ns \<lparr>tv_sec = 9, tv_nsec = 0\<rparr> \<lparr>tv_sec = 10, tv_nsec = 0\<rparr> < 0
   \<and> check_timer \<lparr>tv_sec = 9, tv_nsec = 0\<rparr> \<lparr>tv_sec = 10, tv_nsec = 0\<rparr>
       9223372036854775808
   \<and> \<not> check_timer \<lparr>tv_sec = 9, tv_nsec = 0\<rparr> \<lparr>tv_sec = 10, tv_nsec = 0\<rparr>
       18446744072709551617"
proof -
  have h: "in_span \<lparr>tv_sec = 9, tv_nsec = 0\<rparr> \<lparr>tv_sec = 10, tv_nsec = 0\<rparr>"
    by (simp add: in_span_def normalised_def MAX_SPAN_def)
  have d: "delta_ns \<lparr>tv_sec = 9, tv_nsec = 0\<rparr> \<lparr>tv_sec = 10, tv_nsec = 0\<rparr> = - 1000000000"
    by (simp add: delta_ns_def)
  have n: "delta_ns \<lparr>tv_sec = 9, tv_nsec = 0\<rparr> \<lparr>tv_sec = 10, tv_nsec = 0\<rparr> < 0"
    by (simp add: d)
  show ?thesis
    using h n check_timer_negative_delta [OF h n, of 9223372036854775808]
      check_timer_negative_delta [OF h n, of 18446744072709551617]
    by (simp add: d)
qed

section \<open>Properties of the raw read\<close>

lemma flags_restore:
  fixes x :: "32 word"
  shows "(((x AND NOT ICANON) AND NOT ECHO) OR ICANON) OR ECHO = (x OR ICANON) OR ECHO"
  by (rule bit_word_eqI) (auto simp: bit_simps)

lemma flags_fixed:
  fixes x i e :: "32 word"
  shows "(x OR i) OR e = x \<longleftrightarrow> x AND i = i \<and> x AND e = e"
  unfolding bit_eq_iff bit_and_iff bit_or_iff by blast

lemma cc_fixed:
  assumes "length cc = NCCS"
  shows "cc[VMIN := 1, VTIME := 0] = cc \<longleftrightarrow> cc ! VMIN = 1 \<and> cc ! VTIME = (0 :: 8 word)"
proof -
  have "VMIN < length cc" "VTIME < length cc" "VMIN \<noteq> VTIME"
    using assms by (simp_all add: NCCS_def VMIN_def VTIME_def)
  then show ?thesis
    by (metis length_list_update list_update_id nth_list_update_eq nth_list_update_neq)
qed

lemma scanc_nowait_device:
  assumes "tcgetattr_ok env" and "tcsetattr_drain_ok env"
  shows "fst (snd (scanc_nowait env dev))
           = dev\<lparr>c_lflag := (c_lflag dev OR ICANON) OR ECHO,
                 c_cc := (c_cc dev)[VMIN := 1, VTIME := 0]\<rparr>"
  using assms by (simp add: scanc_nowait_def Let_def flags_restore)

lemma termios_update_fixed:
  "dev\<lparr>c_lflag := l, c_cc := cc\<rparr> = dev \<longleftrightarrow> l = c_lflag dev \<and> cc = c_cc dev"
  by (cases dev) auto

lemma scanc_nowait_char:
  "fst (scanc_nowait env dev)
     = (case read_result env of Got c \<Rightarrow> c | End_Of_Input \<Rightarrow> NUL | Read_Failed \<Rightarrow> NUL)"
  by (simp add: scanc_nowait_def Let_def)

lemma scanc_key: "fst (scanc_nowait (key c) dev) = c"
  by (simp add: scanc_nowait_char key_def)

lemma scanc_nowait_read_failed:
  assumes "read_result env = Read_Failed"
  shows "fst (scanc_nowait env dev) = NUL"
    and "''read()'' \<in> set (snd (snd (scanc_nowait env dev)))"
  using assms by (simp_all add: scanc_nowait_def Let_def)

text \<open>
  C4, as claimed: after every call of \<open>scanc_nowait\<close> the settings of the input device
  equal those before the call. It fails on a terminal whose echo is switched off: one
  successful read later \<open>ECHO\<close> is set, because the function does not keep the settings
  it found but sets \<open>ICANON\<close> and \<open>ECHO\<close> in the structure it has modified.
\<close>

theorem scanc_nowait_changes_settings:
  "c_lflag echo_off = 0x8A33
   \<and> c_lflag (fst (snd (scanc_nowait (key (CHR ''a'')) echo_off))) = 0x8A3B
   \<and> fst (snd (scanc_nowait (key (CHR ''a'')) echo_off)) \<noteq> echo_off"
proof -
  have a: "c_lflag echo_off = 0x8A33"
    by (simp add: echo_off_def zero_termios_def)
  have b: "c_lflag (fst (snd (scanc_nowait (key (CHR ''a'')) echo_off))) = 0x8A3B"
    by (simp add: scanc_nowait_def key_def echo_off_def zero_termios_def Let_def
          ICANON_def ECHO_def)
  have "fst (snd (scanc_nowait (key (CHR ''a'')) echo_off)) \<noteq> echo_off"
  proof
    assume "fst (snd (scanc_nowait (key (CHR ''a'')) echo_off)) = echo_off"
    then have "c_lflag (fst (snd (scanc_nowait (key (CHR ''a'')) echo_off))) = c_lflag echo_off"
      by simp
    then show False
      unfolding a b by simp
  qed
  then show ?thesis
    using a b by simp
qed

text \<open>
  C4, amended: when \<open>tcgetattr\<close> and the final \<open>tcsetattr\<close> succeed, then for every
  setting of the device and whether the read succeeds or fails, the setting after the call
  is the one before it with \<open>ICANON\<close> and \<open>ECHO\<close> set, \<open>VMIN = 1\<close> and \<open>VTIME = 0\<close>, and
  nothing else changed. So the settings are exactly those before the call if and only if
  the device was in canonical mode with echo, \<open>VMIN = 1\<close> and \<open>VTIME = 0\<close>.
\<close>

theorem scanc_nowait_settings:
  assumes "tcgetattr_ok env" and "tcsetattr_drain_ok env" and "length (c_cc dev) = NCCS"
  shows "fst (snd (scanc_nowait env dev))
           = dev\<lparr>c_lflag := (c_lflag dev OR ICANON) OR ECHO,
                 c_cc := (c_cc dev)[VMIN := 1, VTIME := 0]\<rparr>
       \<and> (fst (snd (scanc_nowait env dev)) = dev
            \<longleftrightarrow> c_lflag dev AND ICANON = ICANON \<and> c_lflag dev AND ECHO = ECHO
                \<and> c_cc dev ! VMIN = 1 \<and> c_cc dev ! VTIME = 0)"
proof -
  have a: "fst (snd (scanc_nowait env dev))
             = dev\<lparr>c_lflag := (c_lflag dev OR ICANON) OR ECHO,
                   c_cc := (c_cc dev)[VMIN := 1, VTIME := 0]\<rparr>"
    by (rule scanc_nowait_device [OF assms(1,2)])
  have b: "(c_lflag dev OR ICANON) OR ECHO = c_lflag dev
             \<longleftrightarrow> c_lflag dev AND ICANON = ICANON \<and> c_lflag dev AND ECHO = ECHO"
    by (rule flags_fixed)
  show ?thesis
    unfolding a termios_update_fixed
    using b cc_fixed [OF assms(3)] by metis
qed

text \<open>
  Witness for C4: on a terminal in its usual canonical mode, a call whose read fails
  leaves the settings as they were.
\<close>

theorem scanc_nowait_settings_witness:
  "tcgetattr_ok ((key NUL)\<lparr>read_result := Read_Failed\<rparr>)
   \<and> tcsetattr_drain_ok ((key NUL)\<lparr>read_result := Read_Failed\<rparr>)
   \<and> length (c_cc cooked) = NCCS
   \<and> fst (snd (scanc_nowait ((key NUL)\<lparr>read_result := Read_Failed\<rparr>) cooked)) = cooked"
proof -
  let ?env = "(key NUL)\<lparr>read_result := Read_Failed\<rparr>"
  have h1: "tcgetattr_ok ?env" and h2: "tcsetattr_drain_ok ?env"
    by (simp_all add: key_def)
  have h3: "length (c_cc cooked) = NCCS"
    by (simp add: cooked_def zero_termios_def)
  have f: "c_lflag cooked AND ICANON = ICANON" "c_lflag cooked AND ECHO = ECHO"
    by (simp_all add: cooked_def ICANON_def ECHO_def)
  have c: "c_cc cooked ! VMIN = 1" "c_cc cooked ! VTIME = 0"
    by (simp_all add: cooked_def NCCS_def VMIN_def VTIME_def)
  have "fst (snd (scanc_nowait ?env cooked)) = cooked"
    using scanc_nowait_settings [OF h1 h2 h3] f c by blast
  then show ?thesis
    using h1 h2 h3 by blast
qed

section \<open>Properties of \<open>start_timer\<close>\<close>

lemma start_timer_returns:
  "start_timer (Some now) err cal ts = (Returns now, [])"
  by (simp add: start_timer_def)

text \<open>
  The later revision on a failed clock read: it ends the process where there is no
  calendar time; otherwise \<open>timestamp\<close> uses its unassigned pointer before anything is
  printed. It has no path back to the caller.
\<close>

lemma start_timer_clock_failure:
  "start_timer None err cal ts
     = (if cal = Time_Unavailable
        then (Exits EXIT_FAILURE,
              [''ERROR: In function timestamp(): Calender time is not available''])
        else (Faults Indeterminate_Read, []))"
  by (cases cal) (simp_all add: start_timer_def timestamp_main_def)

lemma start_timer_no_return:
  "start_timer None err cal ts \<noteq> (Returns now, log)"
  by (simp add: start_timer_clock_failure)

text \<open>
  C5. The claim: when the clock cannot be read, \<open>start_timer\<close> ends the process with a
  failure status and never returns to its caller. The revision of src/mycutils.c prints
  the message and returns, the caller's \<open>timespec\<close> unchanged. (The revision of
  src/main.c has \<open>exit(EXIT_FAILURE)\<close> after the message and does not return:
  \<open>start_timer_no_return\<close>.)
\<close>

theorem start_timer_mycutils_returns:
  "start_timer_mycutils None err (Stamp stamp) ts
     = (Returns ts, [start_timer_message stamp err])"
  by (simp add: start_timer_mycutils_def timestamp_def)

section \<open>Strings, formatting and deletion\<close>

lemma c_str_literal:
  "c_str (map Some (s @ NUL # r)) = Inr (takeWhile (\<lambda>c. c \<noteq> NUL) s)"
  by (induction s) (simp_all add: bind_res_def)

lemma c_str_no_NUL: "c_str b = Inr s \<Longrightarrow> NUL \<notin> set s"
proof (induction b arbitrary: s rule: c_str.induct)
  case 1
  then show ?case by simp
next
  case (2 b)
  then show ?case by simp
next
  case (3 c b)
  then show ?case
    by (auto simp: bind_res_def split: if_splits sum.splits)
qed

lemma c_string_no_NUL: "c_string p = Inr s \<Longrightarrow> NUL \<notin> set s"
  by (auto simp: c_string_def dest: c_str_no_NUL split: option.splits)

lemma takeWhile_no_NUL: "NUL \<notin> set s \<Longrightarrow> takeWhile (\<lambda>c. c \<noteq> NUL) s = s"
  by (induction s) auto

lemma c_string_literal: "c_string (literal s) = Inr (takeWhile (\<lambda>c. c \<noteq> NUL) s)"
  using c_str_literal [of s "[]"] by (simp add: c_string_def literal_def)

lemma c_string_literal_plain: "NUL \<notin> set s \<Longrightarrow> c_string (literal s) = Inr s"
  by (simp add: c_string_literal takeWhile_no_NUL)

lemma c_string_literal_NUL:
  "NUL \<notin> set s \<Longrightarrow> c_string (Some (map Some (s @ NUL # r))) = Inr s"
  using c_str_literal [of s r] by (simp add: c_string_def takeWhile_no_NUL)

lemma write_fresh:
  assumes "length out \<le> INT_MAX"
  shows "write_bytes (malloc (length out + 1)) (out @ [NUL]) = Inr (literal out)"
proof -
  have "length out + 1 \<le> PTRDIFF_MAX"
    using assms by (simp add: INT_MAX_def PTRDIFF_MAX_def)
  then show ?thesis
    by (simp add: write_bytes_def malloc_def literal_def)
qed

lemma sfmt_ok:
  assumes "vsnprintf args = Inr out" and "length out \<le> INT_MAX"
  shows "sfmt args = Inr (literal out)"
  using assms write_fresh [of out] by (simp add: sfmt_def bind_res_def)

lemma sfmt_too_long:
  assumes "vsnprintf args = Inr out" and "\<not> length out \<le> INT_MAX"
  shows "sfmt args = Inr (Some [])"
  using assms by (simp add: sfmt_def bind_res_def malloc_def)

lemma sfmt_fault: "vsnprintf args = Inl f \<Longrightarrow> sfmt args = Inl f"
  by (simp add: sfmt_def bind_res_def)

lemma c_string_empty_block: "c_string (Some []) = Inl Out_Of_Bounds"
  by (simp add: c_string_def)

lemma vsnprintf_s_c:
  "c_string p = Inr s \<Longrightarrow> vsnprintf [Pct_s p, Pct_c c] = Inr (s @ [c])"
  by (simp add: bind_res_def)

lemma vsnprintf_s:
  "c_string p = Inr s \<Longrightarrow> vsnprintf [Pct_s p] = Inr s"
  by (simp add: bind_res_def)

lemma vsnprintf_s_s:
  "c_string p = Inr s \<Longrightarrow> c_string q = Inr t \<Longrightarrow> vsnprintf [Pct_s p, Pct_s q] = Inr (s @ t)"
  by (simp add: bind_res_def)

lemma fprintf_clear_ok:
  assumes "c_string p = Inr s" and "c_string q = Inr t" and "length s + length t \<le> INT_MAX"
  shows "fprintf_clear [Pct_s p, Pct_s q] = Inr (s @ t)"
proof -
  have "NUL \<notin> set (s @ t)"
    using assms(1,2) by (auto dest: c_string_no_NUL)
  then show ?thesis
    using assms(3) sfmt_ok [OF vsnprintf_s_s [OF assms(1,2)]]
    by (simp add: fprintf_clear_def bind_res_def c_string_literal_plain)
qed

lemma small_bounds:
  assumes "Suc k \<le> INT_MAX"
  shows "k < 2 ^ 32" and "Suc k < 2 ^ 32" and "k < 2 ^ 64" and "Suc k < 2 ^ 64"
  using assms unfolding INT_MAX_def by simp_all

lemma unat_of_nat32: "k < 2 ^ 32 \<Longrightarrow> unat (of_nat k :: 32 word) = k"
  by (simp add: unat_of_nat)

lemma unat_of_nat64: "k < 2 ^ 64 \<Longrightarrow> unat (of_nat k :: 64 word) = k"
  by (simp add: unat_of_nat)

lemma ucast_of_nat_32_64: "k < 2 ^ 32 \<Longrightarrow> (ucast (of_nat k :: 32 word) :: 64 word) = of_nat k"
  by (simp add: unsigned_of_nat take_bit_nat_eq_self)

lemma ucast_of_nat_64_32: "k < 2 ^ 32 \<Longrightarrow> (ucast (of_nat k :: 64 word) :: 32 word) = of_nat k"
  by (simp add: unsigned_of_nat take_bit_nat_eq_self)

lemma elem_last:
  assumes "Suc k \<le> INT_MAX"
  shows "(ucast ((of_nat (Suc k) :: 64 word) - 1) :: 32 word) = of_nat k"
  using small_bounds(1) [OF assms] by (simp add: ucast_of_nat_64_32)

lemma less_elem:
  assumes "Suc k \<le> INT_MAX" and "c \<le> k"
  shows "(of_nat c :: 32 word) < of_nat k \<longleftrightarrow> c < k"
    and "\<not> (of_nat k :: 32 word) < of_nat c"
proof -
  have "k < 2 ^ 32" "c < 2 ^ 32"
    using small_bounds(1) [OF assms(1)] assms(2) by simp_all
  then have "unat (of_nat k :: 32 word) = k" "unat (of_nat c :: 32 word) = c"
    by (simp_all only: unat_of_nat32)
  then show "(of_nat c :: 32 word) < of_nat k \<longleftrightarrow> c < k"
    and "\<not> (of_nat k :: 32 word) < of_nat c"
    using assms(2) by (simp_all only: word_less_nat_alt not_less)
qed

lemma to_elem_size:
  assumes "Suc k \<le> INT_MAX"
  shows "unat (ucast ((of_nat k :: 32 word) + 1) :: 64 word) = Suc k"
proof -
  have "(of_nat k :: 32 word) + 1 = of_nat (Suc k)"
    by simp
  then show ?thesis
    using small_bounds [OF assms]
    by (simp only: ucast_of_nat_32_64 unat_of_nat64)
qed

lemma from_elem_size:
  assumes "Suc k \<le> INT_MAX"
  shows "(of_nat (Suc k) :: 64 word) - ucast (of_nat k :: 32 word) = 1"
  using small_bounds(1) [OF assms] by (simp add: ucast_of_nat_32_64)

lemma sdelelem_loop_append:
  "sdelelem_loop sp elem (xs @ ys) parts
     = bind_res (sdelelem_loop sp elem xs parts) (sdelelem_loop sp elem ys)"
proof (induction xs arbitrary: parts)
  case Nil
  show ?case by (simp add: bind_res_def)
next
  case (Cons c cs)
  obtain t f where parts: "parts = (t, f)" by (cases parts)
  show ?case
    unfolding parts
    by (simp add: Cons.IH bind_res_def split: sum.splits)
qed

lemma peek_literal: "j < length s \<Longrightarrow> peek (literal s) j = Inr (s ! j)"
  by (simp add: peek_def literal_def nth_append)

lemma fill_next:
  assumes "j < n" and "j < length s"
  shows "(map Some (take j s) @ replicate (n - j) None)[j := Some (s ! j)]
           = map Some (take (Suc j) s) @ replicate (n - Suc j) None"
proof -
  obtain m where m: "n - j = Suc m" "n - Suc j = m"
    using assms(1) by (metis Suc_diff_Suc)
  show ?thesis
    using assms(2) by (simp add: m list_update_append take_Suc_conv_app_nth)
qed

lemma sdelelem_loop_prefix:
  assumes "length s = Suc k" and "Suc k \<le> INT_MAX" and "j \<le> k"
  shows "sdelelem_loop (literal s) (of_nat k) [0..<j] (Some (replicate (Suc k) None), fr)
           = Inr (Some (map Some (take j s) @ replicate (Suc k - j) None), fr)"
  using assms(3)
proof (induction j)
  case 0
  show ?case by simp
next
  case (Suc j)
  then have j: "j < k" "j \<le> k" by simp_all
  have lt: "(of_nat j :: 32 word) < of_nat k" "\<not> (of_nat k :: 32 word) < of_nat j"
    using less_elem [OF assms(2) j(2)] j(1) by simp_all
  have pk: "peek (literal s) j = Inr (s ! j)"
    using j(1) assms(1) by (simp add: peek_literal)
  have po: "poke (Some (map Some (take j s) @ replicate (Suc k - j) None)) j (s ! j)
              = Inr (Some (map Some (take (Suc j) s) @ replicate (Suc k - Suc j) None))"
    using j(1) assms(1) fill_next [of j "Suc k" s] by (simp add: poke_def)
  show ?case
    using Suc.IH [OF j(2)] lt pk po
    by (simp add: sdelelem_loop_append bind_res_def del: replicate_Suc)
qed

lemma sdelelem_loop_last:
  assumes "length s = Suc k" and "Suc k \<le> INT_MAX"
  shows "sdelelem_loop (literal s) (of_nat k) [0..<Suc k] (Some (replicate (Suc k) None), fr)
           = Inr (Some (map Some (take k s) @ [None]), fr)"
proof -
  have "\<not> (of_nat k :: 32 word) < of_nat k" by simp
  moreover have "sdelelem_loop (literal s) (of_nat k) [0..<k] (Some (replicate (Suc k) None), fr)
           = Inr (Some (map Some (take k s) @ [None]), fr)"
    using sdelelem_loop_prefix [OF assms order_refl, of fr] by simp
  ultimately show ?thesis
    by (simp add: sdelelem_loop_append bind_res_def del: replicate_Suc)
qed


lemma sdelelem_last:
  assumes "length s = Suc k" and "Suc k \<le> INT_MAX" and "NUL \<notin> set s"
  shows "sdelelem (literal s) (of_nat k) = Inr (literal (butlast s))"
proof -
  have n: "strlen (literal s) = Inr (Suc k)"
    using assms(1,3) by (simp add: strlen_def bind_res_def c_string_literal_plain)
  have b: "Suc k < 2 ^ 32" "Suc k \<le> PTRDIFF_MAX"
    using assms(2) by (simp_all add: INT_MAX_def PTRDIFF_MAX_def)
  have t: "malloc (unat (ucast ((of_nat k :: 32 word) + 1) :: 64 word)) = Some (replicate (Suc k) None)"
    using b(2) by (simp only: to_elem_size [OF assms(2)] malloc_def if_True)
  have f: "malloc (unat ((of_nat (Suc k) :: 64 word) - ucast (of_nat k :: 32 word))) = Some [None]"
    by (simp only: from_elem_size [OF assms(2)]) (simp add: malloc_def PTRDIFF_MAX_def)
  have bl: "take k s = butlast s"
    using assms(1) by (simp add: butlast_conv_take)
  have p1: "poke (Some (map Some (butlast s) @ [None])) (unat (of_nat k :: 32 word)) NUL
              = Inr (literal (butlast s))"
    using assms(1) b(1) by (simp add: poke_def unat_of_nat32 literal_def list_update_append)
  have p2: "poke (Some [None]) (unat ((of_nat (Suc k) :: 64 word) - ucast (of_nat k :: 32 word) - 1)) NUL
              = Inr (literal [])"
    by (simp only: from_elem_size [OF assms(2)]) (simp add: poke_def literal_def)
  have nn: "NUL \<notin> set (butlast s)"
    using assms(3) by (auto dest: in_set_butlastD)
  have v: "vsnprintf [Pct_s (literal (butlast s)), Pct_s (literal [])] = Inr (butlast s)"
    using vsnprintf_s_s [of "literal (butlast s)" "butlast s" "literal []" "[]"] nn
    by (simp add: c_string_literal_plain)
  have l: "length (butlast s) \<le> INT_MAX"
    using assms(1,2) by simp
  have g: "\<not> (2 ^ 32 \<le> Suc k)"
    using b(1) by simp
  have loop: "sdelelem_loop (literal s) (of_nat k) [0..<Suc k]
                (Some (replicate (Suc k) None), Some [None])
              = Inr (Some (map Some (butlast s) @ [None]), Some [None])"
    by (simp only: sdelelem_loop_last [OF assms(1,2)] bl)
  show ?thesis
    by (simp only: sdelelem_def n bind_res_def sum.case Let_def t f g if_False loop
          prod.case p1 p2 sfmt_ok [OF v l])
qed

lemma ucast_minus_1_64_32: "(ucast (- 1 :: 64 word) :: 32 word) = - 1"
  by (rule bit_word_eqI) (auto simp: bit_simps)

lemma unat_minus_1_32: "unat (- 1 :: 32 word) = 4294967295"
  by (simp add: unsigned_minus_1_eq_mask mask_eq_exp_minus_1)

lemma unat_neg_ucast_minus_1: "unat (- (ucast (- 1 :: 32 word) :: 64 word)) = 18446744069414584321"
proof -
  have "(ucast (- 1 :: 32 word) :: 64 word) = 4294967295"
    by (simp add: unsigned_minus_1_eq_mask mask_eq_exp_minus_1)
  then show ?thesis by simp
qed

lemma sdelelem_underflow:
  assumes "c_string p = Inr []"
  shows "bind_res (strlen p) (\<lambda>n. sdelelem p (ucast ((of_nat n :: 64 word) - 1))) = Inl Out_Of_Bounds"
proof -
  have n: "strlen p = Inr 0"
    using assms by (simp add: strlen_def bind_res_def)
  show ?thesis
    unfolding n bind_res_def sdelelem_def
    by (simp add: ucast_minus_1_64_32 unat_minus_1_32 unat_neg_ucast_minus_1
          malloc_def poke_def PTRDIFF_MAX_def)
qed

section \<open>Properties of the line editor\<close>

lemma seen_fields [simp]:
  "buf (seen line st env) = buf st"
  "btemp (seen line st env) = btemp st"
  "shown (seen line st env) = shown st @ [line]"
  "tty (seen line st env) = fst (snd (scanc_nowait env (tty st)))"
  "errlog (seen line st env) = errlog st @ snd (snd (scanc_nowait env (tty st)))"
  by (simp_all add: seen_def split: prod.splits)

lemma scans_step_unfold:
  assumes "fprintf_clear [Pct_s (literal prompt), Pct_s (btemp st)] = Inr line"
  shows "scans_step prompt st env =
     (if fst (scanc_nowait env (tty st)) = CHR 0x7F then
        (case bind_res (strlen (btemp st))
                (\<lambda>n. sdelelem (btemp st) (ucast ((of_nat n :: 64 word) - 1))) of
           Inl f \<Rightarrow> Crashed f
         | Inr t \<Rightarrow> Running ((seen line st env)\<lparr>btemp := t\<rparr>))
      else if fst (scanc_nowait env (tty st)) = CHR 0x0A then Returned (seen line st env)
      else
        (case sfmt [Pct_s (btemp st), Pct_c (fst (scanc_nowait env (tty st)))] of
           Inl f \<Rightarrow> Crashed f
         | Inr b \<Rightarrow>
             (case sfmt [Pct_s b] of
                Inl f \<Rightarrow> Crashed f
              | Inr t \<Rightarrow> Running ((seen line st env)\<lparr>buf := b, btemp := t\<rparr>))))"
proof -
  obtain userin dev err where r: "scanc_nowait env (tty st) = (userin, dev, err)"
    by (cases "scanc_nowait env (tty st)")
  have s1: "seen line st env
              = st\<lparr>shown := shown st @ [line], tty := dev, errlog := errlog st @ err\<rparr>"
    by (simp add: seen_def r)
  show ?thesis
    unfolding s1 by (simp add: scans_step_def Let_def r assms)
qed

lemma scans_step_no_line:
  assumes "fprintf_clear [Pct_s (literal prompt), Pct_s (btemp st)] = Inl f"
  shows "scans_step prompt st env = Crashed f"
  using assms by (simp add: scans_step_def)

lemma prompt_line:
  assumes "c_string (btemp st) = Inr s" and "length prompt + length s \<le> INT_MAX"
  shows "fprintf_clear [Pct_s (literal prompt), Pct_s (btemp st)] = Inr (prompt_text prompt @ s)"
proof -
  have "length (prompt_text prompt) \<le> length prompt"
    unfolding prompt_text_def by (rule length_takeWhile_le)
  then have "length (prompt_text prompt) + length s \<le> INT_MAX"
    using assms(2) by simp
  then show ?thesis
    using fprintf_clear_ok [of "literal prompt" "prompt_text prompt" "btemp st" s] assms(1)
    by (simp add: c_string_literal prompt_text_def)
qed

lemma strlen_literal: "NUL \<notin> set s \<Longrightarrow> strlen (literal s) = Inr (length s)"
  by (simp add: strlen_def bind_res_def c_string_literal_plain)

lemma backspace_last:
  assumes "NUL \<notin> set s" and "s \<noteq> []" and "length s \<le> INT_MAX"
  shows "bind_res (strlen (literal s))
           (\<lambda>n. sdelelem (literal s) (ucast ((of_nat n :: 64 word) - 1)))
         = Inr (literal (butlast s))"
proof -
  obtain k where k: "length s = Suc k"
    using assms(2) by (cases s) auto
  have b: "Suc k \<le> INT_MAX"
    using assms(3) k by simp
  show ?thesis
    by (simp only: strlen_literal [OF assms(1)] bind_res_def sum.case k elem_last [OF b]
          sdelelem_last [OF k b assms(1)])
qed

lemma step_backspace:
  assumes "fst (scanc_nowait env (tty st)) = CHR 0x7F"
    and "btemp st = literal s" and "NUL \<notin> set s" and "s \<noteq> []" and "length s \<le> INT_MAX"
    and "length prompt + length s \<le> INT_MAX"
  shows "scans_step prompt st env
           = Running ((seen (prompt_text prompt @ s) st env)\<lparr>btemp := literal (butlast s)\<rparr>)"
proof -
  have c: "c_string (btemp st) = Inr s"
    using assms(2,3) by (simp add: c_string_literal_plain)
  show ?thesis
    using backspace_last [OF assms(3,4,5)]
    by (simp add: scans_step_unfold [OF prompt_line [OF c assms(6)]] assms(1,2))
qed

lemma step_backspace_empty:
  assumes "fst (scanc_nowait env (tty st)) = CHR 0x7F" and "c_string (btemp st) = Inr []"
  shows "scans_step prompt st env = Crashed Out_Of_Bounds"
proof (cases "fprintf_clear [Pct_s (literal prompt), Pct_s (btemp st)]")
  case (Inl f)
  have "f = Out_Of_Bounds"
  proof -
    have v: "vsnprintf [Pct_s (literal prompt), Pct_s (btemp st)] = Inr (prompt_text prompt)"
      using vsnprintf_s_s [of "literal prompt" "prompt_text prompt" "btemp st" "[]"] assms(2)
      by (simp add: c_string_literal prompt_text_def)
    show ?thesis
    proof (cases "length (prompt_text prompt) \<le> INT_MAX")
      case True
      have "NUL \<notin> set (prompt_text prompt)"
        unfolding prompt_text_def by (auto dest: set_takeWhileD)
      then show ?thesis
        using Inl sfmt_ok [OF v True]
        by (simp add: fprintf_clear_def bind_res_def c_string_literal_plain)
    next
      case False
      then show ?thesis
        using Inl sfmt_too_long [OF v False]
        by (simp add: fprintf_clear_def bind_res_def c_string_empty_block)
    qed
  qed
  then show ?thesis
    using Inl by (simp add: scans_step_no_line)
next
  case (Inr line)
  show ?thesis
    using sdelelem_underflow [OF assms(2)]
    by (simp add: scans_step_unfold [OF Inr] assms(1))
qed

lemma step_newline:
  assumes "fst (scanc_nowait env (tty st)) = CHR 0x0A"
    and "c_string (btemp st) = Inr s" and "length prompt + length s \<le> INT_MAX"
  shows "scans_step prompt st env = Returned (seen (prompt_text prompt @ s) st env)"
  by (simp add: scans_step_unfold [OF prompt_line [OF assms(2,3)]] assms(1))

lemma step_char:
  assumes "fst (scanc_nowait env (tty st)) = c" and "c \<noteq> CHR 0x7F" and "c \<noteq> CHR 0x0A"
    and "c_string (btemp st) = Inr s" and "length prompt + length s < INT_MAX"
  shows "scans_step prompt st env
           = Running ((seen (prompt_text prompt @ s) st env)
                        \<lparr>buf := literal (s @ [c]),
                         btemp := literal (if c = NUL then s else s @ [c])\<rparr>)"
proof -
  have l: "length prompt + length s \<le> INT_MAX" "length (s @ [c]) \<le> INT_MAX"
    using assms(5) by simp_all
  have n: "NUL \<notin> set s"
    using assms(4) by (rule c_string_no_NUL)
  have b: "sfmt [Pct_s (btemp st), Pct_c c] = Inr (literal (s @ [c]))"
    by (rule sfmt_ok [OF vsnprintf_s_c [OF assms(4)] l(2)])
  have "\<forall>x\<in>set s. x \<noteq> NUL"
    using n by auto
  then have t: "takeWhile (\<lambda>c. c \<noteq> NUL) (s @ [c]) = (if c = NUL then s else s @ [c])"
    by (simp add: takeWhile_append2)
  have cs: "c_string (literal (s @ [c])) = Inr (if c = NUL then s else s @ [c])"
    by (simp only: c_string_literal t)
  have "length (if c = NUL then s else s @ [c]) \<le> INT_MAX"
    using l(2) by simp
  then have t2: "sfmt [Pct_s (literal (s @ [c]))] = Inr (literal (if c = NUL then s else s @ [c]))"
    by (rule sfmt_ok [OF vsnprintf_s [OF cs]])
  show ?thesis
    using assms(2,3)
    by (simp only: scans_step_unfold [OF prompt_line [OF assms(4) l(1)]] assms(1) if_False
          b t2 sum.case)
qed

lemma scans_loop_append:
  "scans_loop prompt st (xs @ ys)
     = (case scans_loop prompt st xs of
          Running st' \<Rightarrow> scans_loop prompt st' ys
        | Returned st' \<Rightarrow> Returned st'
        | Crashed f \<Rightarrow> Crashed f)"
  by (induction xs arbitrary: st) (simp_all split: run.splits)

lemma poke_fresh: "poke (malloc 1) 0 NUL = Inr (literal [])"
  by (simp add: poke_def malloc_def literal_def PTRDIFF_MAX_def)

lemma scans_start:
  "scans prompt dev envs
     = scans_loop prompt
         \<lparr>buf = malloc 1, btemp = literal [], tty = dev, shown = [], errlog = []\<rparr> envs"
  unfolding scans_def poke_fresh by simp

lemma editor_inv_start:
  "editor_inv \<lparr>buf = malloc 1, btemp = literal [], tty = dev, shown = [], errlog = []\<rparr>"
  unfolding editor_inv_def by (intro exI [of _ "[]"]) simp

lemma editor_inv_step:
  assumes "editor_inv st" and "scans_step prompt st env = Running st'"
  shows "editor_inv st'"
proof -
  obtain s where s: "btemp st = literal s" "NUL \<notin> set s" "length s \<le> INT_MAX"
    and b: "s = [] \<or> (\<exists>r. c_string (buf st) = Inr (s @ r))"
    using assms(1) unfolding editor_inv_def by blast
  have c: "c_string (btemp st) = Inr s"
    using s(1,2) by (simp add: c_string_literal_plain)
  define ch where "ch = fst (scanc_nowait env (tty st))"
  obtain line where line: "fprintf_clear [Pct_s (literal prompt), Pct_s (btemp st)] = Inr line"
    using assms(2) scans_step_no_line [of prompt st _ env]
    by (cases "fprintf_clear [Pct_s (literal prompt), Pct_s (btemp st)]") auto
  note u = scans_step_unfold [OF line, of env, folded ch_def]
  consider (bs) "ch = CHR 0x7F" | (nl) "ch = CHR 0x0A" | (other) "ch \<noteq> CHR 0x7F" "ch \<noteq> CHR 0x0A"
    by blast
  then show ?thesis
  proof cases
    case bs
    show ?thesis
    proof (cases "s = []")
      case True
      then show ?thesis
        using assms(2) sdelelem_underflow [of "btemp st"] c
        by (simp add: u bs)
    next
      case False
      then obtain r where r: "c_string (buf st) = Inr (s @ r)"
        using b by blast
      have st': "st' = (seen line st env)\<lparr>btemp := literal (butlast s)\<rparr>"
        using assms(2) backspace_last [OF s(2) False s(3)]
        by (simp add: u bs s(1))
      have "c_string (buf st') = Inr (butlast s @ (last s # r))"
        using r False by (simp add: st')
      moreover have "NUL \<notin> set (butlast s)"
        using s(2) by (auto dest: in_set_butlastD)
      moreover have "length (butlast s) \<le> INT_MAX"
        using s(3) by simp
      moreover have "btemp st' = literal (butlast s)"
        by (simp add: st')
      ultimately show ?thesis
        unfolding editor_inv_def by blast
    qed
  next
    case nl
    then show ?thesis
      using assms(2) by (simp add: u)
  next
    case other
    have v: "vsnprintf [Pct_s (btemp st), Pct_c ch] = Inr (s @ [ch])"
      by (rule vsnprintf_s_c [OF c])
    show ?thesis
    proof (cases "length (s @ [ch]) \<le> INT_MAX")
      case True
      define t where "t = (if ch = NUL then s else s @ [ch])"
      have "\<forall>x\<in>set s. x \<noteq> NUL"
        using s(2) by auto
      then have "takeWhile (\<lambda>c. c \<noteq> NUL) (s @ [ch]) = t"
        by (simp add: takeWhile_append2 t_def)
      then have cs: "c_string (literal (s @ [ch])) = Inr t"
        by (simp only: c_string_literal)
      have lt: "length t \<le> INT_MAX"
        using True by (simp add: t_def)
      have st': "st' = (seen line st env)\<lparr>buf := literal (s @ [ch]), btemp := literal t\<rparr>"
        using assms(2) other sfmt_ok [OF v True] sfmt_ok [OF vsnprintf_s [OF cs] lt]
        by (simp add: u)
      have "NUL \<notin> set t"
        using cs by (rule c_string_no_NUL)
      moreover have "c_string (buf st') = Inr (t @ [])"
        using cs by (simp add: st')
      moreover have "btemp st' = literal t"
        by (simp add: st')
      ultimately show ?thesis
        using lt unfolding editor_inv_def by blast
    next
      case False
      have "sfmt [Pct_s (Some [])] = Inl Out_Of_Bounds"
        by (simp add: sfmt_def bind_res_def c_string_def)
      then show ?thesis
        using assms(2) other sfmt_too_long [OF v False]
        by (simp add: u)
    qed
  qed
qed

lemma editor_inv_loop:
  assumes "editor_inv st" and "scans_loop prompt st envs = Running st'"
  shows "editor_inv st'"
  using assms
proof (induction envs arbitrary: st)
  case Nil
  then show ?case by simp
next
  case (Cons env envs)
  then show ?case
    by (auto split: run.splits dest: editor_inv_step)
qed

lemma editor_inv_scans:
  assumes "scans prompt dev envs = Running st"
  shows "editor_inv st"
  using editor_inv_loop [OF editor_inv_start] assms unfolding scans_start by blast

text \<open>
  The later revision keeps what a final backspace removed. Let the editor wait for input
  with the non-empty string \<open>s\<close> in \<open>btemp\<close>. After a backspace and a newline \<open>scans\<close>
  returns; \<open>*buf\<close> is the block it was before the backspace, and its string begins
  with all of \<open>s\<close>, the removed last character included, while \<open>btemp\<close> and the last
  line shown hold \<open>s\<close> without it.
\<close>

lemma scans_backspace_then_enter:
  assumes "scans prompt dev envs = Running st"
    and "c_string (btemp st) = Inr s" and "s \<noteq> []"
    and "length prompt + length s \<le> INT_MAX"
  shows "\<exists>st' r. scans prompt dev (envs @ [key (CHR 0x7F), key (CHR 0x0A)]) = Returned st'
           \<and> buf st' = buf st
           \<and> c_string (buf st') = Inr (s @ r)
           \<and> c_string (btemp st') = Inr (butlast s)
           \<and> last (shown st') = prompt_text prompt @ butlast s"
proof -
  obtain s' where s': "btemp st = literal s'" "NUL \<notin> set s'" "length s' \<le> INT_MAX"
    and b: "s' = [] \<or> (\<exists>r. c_string (buf st) = Inr (s' @ r))"
    using editor_inv_scans [OF assms(1)] unfolding editor_inv_def by blast
  have eq: "s' = s"
    using s'(1,2) assms(2) by (simp add: c_string_literal_plain)
  obtain r where r: "c_string (buf st) = Inr (s @ r)"
    using b assms(3) unfolding eq by blast
  define st1 where "st1 = (seen (prompt_text prompt @ s) st (key (CHR 0x7F)))\<lparr>btemp := literal (butlast s)\<rparr>"
  define st2 where "st2 = seen (prompt_text prompt @ butlast s) st1 (key (CHR 0x0A))"
  have 1: "scans_step prompt st (key (CHR 0x7F)) = Running st1"
    unfolding st1_def
    using s' assms(3,4) unfolding eq
    by (intro step_backspace) (simp_all add: scanc_key)
  have nb: "NUL \<notin> set (butlast s)"
    using s'(2) unfolding eq by (auto dest: in_set_butlastD)
  have c1: "c_string (btemp st1) = Inr (butlast s)"
    using nb by (simp add: st1_def c_string_literal_plain)
  have 2: "scans_step prompt st1 (key (CHR 0x0A)) = Returned st2"
    unfolding st2_def
    using c1 assms(4) by (intro step_newline) (simp_all add: scanc_key)
  have "scans prompt dev (envs @ [key (CHR 0x7F), key (CHR 0x0A)]) = Returned st2"
    using assms(1) by (simp add: scans_start scans_loop_append 1 2)
  moreover have "buf st2 = buf st"
    by (simp add: st2_def st1_def)
  moreover have "c_string (btemp st2) = Inr (butlast s)"
    using c1 by (simp add: st2_def)
  moreover have "last (shown st2) = prompt_text prompt @ butlast s"
    by (simp add: st2_def)
  ultimately show ?thesis
    using r by auto
qed

lemma start_state:
  "c_string (btemp \<lparr>buf = malloc 1, btemp = literal [], tty = dev, shown = [], errlog = []\<rparr>) = Inr []"
  by (simp add: c_string_literal)

lemma INT_MAX_gt: "n < 2147483647 \<Longrightarrow> n < INT_MAX"
  by (simp add: INT_MAX_def)

text \<open>
  The later revision on the keystrokes \<open>a\<close>, \<open>b\<close>, backspace (127), \<open>c\<close>, newline:
  \<open>scans\<close> returns with the string \<open>ac\<close> in the caller's buffer, for every setting of
  the terminal and every prompt that leaves room for two characters below \<open>INT_MAX\<close>.
\<close>

lemma scans_ab_backspace_c:
  assumes "length prompt + 2 < INT_MAX"
  shows "returned_string
           (scans prompt dev (map key (''ab'' @ [CHR 0x7F] @ ''c'' @ [CHR 0x0A])))
         = Some (Inr ''ac'')"
proof -
  let ?p = "prompt_text prompt"
  define st0 where "st0 = \<lparr>buf = malloc 1, btemp = literal [], tty = dev, shown = [], errlog = []\<rparr>"
  define st1 where "st1 = (seen (?p @ []) st0 (key (CHR ''a'')))\<lparr>buf := literal ''a'', btemp := literal ''a''\<rparr>"
  define st2 where "st2 = (seen (?p @ ''a'') st1 (key (CHR ''b'')))\<lparr>buf := literal ''ab'', btemp := literal ''ab''\<rparr>"
  define st3 where "st3 = (seen (?p @ ''ab'') st2 (key (CHR 0x7F)))\<lparr>btemp := literal ''a''\<rparr>"
  define st4 where "st4 = (seen (?p @ ''a'') st3 (key (CHR ''c'')))\<lparr>buf := literal ''ac'', btemp := literal ''ac''\<rparr>"
  define st5 where "st5 = seen (?p @ ''ac'') st4 (key (CHR 0x0A))"
  have c0: "c_string (btemp st0) = Inr []"
    by (simp add: st0_def c_string_literal)
  have 1: "scans_step prompt st0 (key (CHR ''a'')) = Running st1"
    using step_char [of "key (CHR ''a'')" st0 "CHR ''a''" "[]" prompt] c0 assms
    by (simp add: scanc_key NUL_def st1_def)
  have c1: "c_string (btemp st1) = Inr ''a''"
    by (simp add: st1_def c_string_literal NUL_def)
  have 2: "scans_step prompt st1 (key (CHR ''b'')) = Running st2"
    using step_char [of "key (CHR ''b'')" st1 "CHR ''b''" "''a''" prompt] c1 assms
    by (simp add: scanc_key NUL_def st2_def)
  have 3: "scans_step prompt st2 (key (CHR 0x7F)) = Running st3"
    using step_backspace [of "key (CHR 0x7F)" st2 "''ab''" prompt] assms
    by (simp add: scanc_key NUL_def st2_def st3_def INT_MAX_def)
  have c3: "c_string (btemp st3) = Inr ''a''"
    by (simp add: st3_def c_string_literal NUL_def)
  have 4: "scans_step prompt st3 (key (CHR ''c'')) = Running st4"
    using step_char [of "key (CHR ''c'')" st3 "CHR ''c''" "''a''" prompt] c3 assms
    by (simp add: scanc_key NUL_def st4_def)
  have c4: "c_string (btemp st4) = Inr ''ac''"
    by (simp add: st4_def c_string_literal NUL_def)
  have 5: "scans_step prompt st4 (key (CHR 0x0A)) = Returned st5"
    using step_newline [of "key (CHR 0x0A)" st4 "''ac''" prompt] c4 assms
    by (simp add: scanc_key st5_def)
  have "scans prompt dev (map key (''ab'' @ [CHR 0x7F] @ ''c'' @ [CHR 0x0A])) = Returned st5"
    unfolding scans_start st0_def [symmetric] by (simp add: 1 2 3 4 5)
  moreover have "c_string (buf st5) = Inr ''ac''"
    by (simp add: st5_def st4_def c_string_literal NUL_def)
  ultimately show ?thesis
    by (simp add: returned_string_def)
qed

lemma scans_ab_backspace_c_example:
  "length file_prompt + 2 < INT_MAX
   \<and> returned_string
         (scans file_prompt echo_off (map key (''ab'' @ [CHR 0x7F] @ ''c'' @ [CHR 0x0A])))
       = Some (Inr ''ac'')"
proof -
  have h: "length file_prompt + 2 < INT_MAX"
    by (simp add: file_prompt_def INT_MAX_def)
  show ?thesis
    using h scans_ab_backspace_c [OF h, of echo_off] by simp
qed

lemma scans_backspace_first:
  "scans prompt dev (key (CHR 0x7F) # envs) = Crashed Out_Of_Bounds"
proof -
  have "scans_step prompt
          \<lparr>buf = malloc 1, btemp = literal [], tty = dev, shown = [], errlog = []\<rparr>
          (key (CHR 0x7F)) = Crashed Out_Of_Bounds"
    by (rule step_backspace_empty [OF scanc_key start_state])
  then show ?thesis
    unfolding scans_start by simp
qed

text \<open>
  C3. The claim: a backspace on the empty buffer is a no-op without underflow or
  out-of-range index, and backspace, backspace, \<open>x\<close>, newline returns \<open>x\<close>. In \<open>scans\<close> the
  index passed to \<open>sdelelem\<close> is \<open>strlen(btemp) - 1\<close>, which wraps to \<open>2^32 - 1\<close> on the
  empty buffer; \<open>sdelelem\<close> then stores a byte at that index of a block of
  \<open>elem + 1 = 0\<close> bytes. The editor does not reach the second keystroke. The earlier
  \<open>stringrmlast\<close> tests for the empty string and leaves it alone (\<open>stringrmlast_empty\<close>).
\<close>

theorem scans_backspace_on_empty:
  "scans file_prompt echo_off (map key ([CHR 0x7F, CHR 0x7F] @ ''x'' @ [CHR 0x0A]))
     = Crashed Out_Of_Bounds"
  using scans_backspace_first [of file_prompt echo_off] by simp

lemma stringrmlast_empty:
  assumes "c_string s = Inr []"
  shows "stringrmlast s = Inr s"
  using assms by (simp add: stringrmlast_def strlen_def bind_res_def)

text \<open>
  C6. The claim: for a newline alone \<open>scans\<close> returns the empty string. The caller's
  buffer is a block of one byte obtained from \<open>malloc\<close>; only the default branch of the
  \<open>switch\<close> stores anything in \<open>*buf\<close>, so for a newline alone its byte was never
  written, and the string read from it is not determined.
\<close>

theorem scans_newline_only:
  "returned_block (scans file_prompt echo_off [key (CHR 0x0A)]) = Some (Some [None])
   \<and> returned_string (scans file_prompt echo_off [key (CHR 0x0A)])
       = Some (Inl Indeterminate_Read)"
proof -
  define st0 where "st0 = \<lparr>buf = malloc 1, btemp = literal [], tty = echo_off, shown = [], errlog = []\<rparr>"
  have c0: "c_string (btemp st0) = Inr []"
    by (simp add: st0_def c_string_literal)
  have "length file_prompt + length ([] :: string) \<le> INT_MAX"
    by (simp add: file_prompt_def INT_MAX_def)
  then have "scans_step file_prompt st0 (key (CHR 0x0A))
               = Returned (seen (prompt_text file_prompt @ []) st0 (key (CHR 0x0A)))"
    using c0 by (intro step_newline) (simp_all add: scanc_key)
  then have "scans file_prompt echo_off [key (CHR 0x0A)]
               = Returned (seen (prompt_text file_prompt @ []) st0 (key (CHR 0x0A)))"
    unfolding scans_start st0_def [symmetric] by simp
  moreover have "buf st0 = Some [None]"
    by (simp add: st0_def malloc_def PTRDIFF_MAX_def)
  ultimately show ?thesis
    by (simp add: returned_block_def returned_string_def c_string_def)
qed

text \<open>
  The later revision on a failed read: \<open>read()\<close> is reported through \<open>perror\<close> and
  \<open>scanc_nowait\<close> returns the character 0. In the editor, with the string \<open>s\<close> in
  \<open>btemp\<close>, that character takes the default branch: the caller's buffer becomes the
  bytes of \<open>s\<close>, the \<open>NUL\<close> read, and the terminator; \<open>btemp\<close> holds \<open>s\<close> again and
  the loop is running.
\<close>

lemma failed_read_appends_nul:
  assumes "read_result env = Read_Failed"
    and "c_string (btemp st) = Inr s"
    and "length prompt + length s < INT_MAX"
  shows "fst (scanc_nowait env (tty st)) = NUL
       \<and> ''read()'' \<in> set (snd (snd (scanc_nowait env (tty st))))
       \<and> scans_step prompt st env
           = Running ((seen (prompt_text prompt @ s) st env)
                        \<lparr>buf := literal (s @ [NUL]), btemp := literal s\<rparr>)"
proof -
  note r = scanc_nowait_read_failed [OF assms(1), of "tty st"]
  have n: "NUL \<noteq> CHR 0x7F" "NUL \<noteq> CHR 0x0A"
    by (simp_all add: NUL_def)
  have "scans_step prompt st env
          = Running ((seen (prompt_text prompt @ s) st env)
                       \<lparr>buf := literal (s @ [NUL]), btemp := literal s\<rparr>)"
    using step_char [OF r(1) n assms(2,3)] by simp
  then show ?thesis
    using r by simp
qed

lemma scans_type_ab:
  assumes "length prompt + 2 < INT_MAX"
  shows "\<exists>st. scans prompt dev (map key ''ab'') = Running st
            \<and> c_string (btemp st) = Inr ''ab'' \<and> c_string (buf st) = Inr ''ab''"
proof -
  let ?p = "prompt_text prompt"
  define st0 where "st0 = \<lparr>buf = malloc 1, btemp = literal [], tty = dev, shown = [], errlog = []\<rparr>"
  define st1 where "st1 = (seen (?p @ []) st0 (key (CHR ''a'')))\<lparr>buf := literal ''a'', btemp := literal ''a''\<rparr>"
  define st2 where "st2 = (seen (?p @ ''a'') st1 (key (CHR ''b'')))\<lparr>buf := literal ''ab'', btemp := literal ''ab''\<rparr>"
  have c0: "c_string (btemp st0) = Inr []"
    by (simp add: st0_def c_string_literal)
  have 1: "scans_step prompt st0 (key (CHR ''a'')) = Running st1"
    using step_char [of "key (CHR ''a'')" st0 "CHR ''a''" "[]" prompt] c0 assms
    by (simp add: scanc_key NUL_def st1_def)
  have c1: "c_string (btemp st1) = Inr ''a''"
    by (simp add: st1_def c_string_literal NUL_def)
  have 2: "scans_step prompt st1 (key (CHR ''b'')) = Running st2"
    using step_char [of "key (CHR ''b'')" st1 "CHR ''b''" "''a''" prompt] c1 assms
    by (simp add: scanc_key NUL_def st2_def)
  have "scans prompt dev (map key ''ab'') = Running st2"
    unfolding scans_start st0_def [symmetric] by (simp add: 1 2)
  moreover have "c_string (btemp st2) = Inr ''ab''" "c_string (buf st2) = Inr ''ab''"
    by (simp_all add: st2_def c_string_literal NUL_def)
  ultimately show ?thesis
    by blast
qed

lemma scans_backspace_then_enter_example:
  "''ab'' \<noteq> [] \<and> length file_prompt + length ''ab'' \<le> INT_MAX
   \<and> returned_string
         (scans file_prompt echo_off (map key ''ab'' @ [key (CHR 0x7F), key (CHR 0x0A)]))
       = Some (Inr ''ab'')"
proof -
  have b: "length file_prompt + 2 < INT_MAX"
    by (simp add: file_prompt_def INT_MAX_def)
  obtain st where st: "scans file_prompt echo_off (map key ''ab'') = Running st"
    and c: "c_string (btemp st) = Inr ''ab''" and d: "c_string (buf st) = Inr ''ab''"
    using scans_type_ab [OF b] by blast
  have n: "''ab'' \<noteq> []"
    by simp
  have l: "length file_prompt + length ''ab'' \<le> INT_MAX"
    using b by simp
  obtain st' where "scans file_prompt echo_off (map key ''ab'' @ [key (CHR 0x7F), key (CHR 0x0A)])
                      = Returned st'" and "buf st' = buf st"
    using scans_backspace_then_enter [OF st c n l] by blast
  then show ?thesis
    using d l by (simp add: returned_string_def)
qed

section \<open>Properties of the earlier line editor\<close>

text \<open>
  The editor of src/mycutils.c:148 formats as the later one does, but starts with
  \<open>btemp\<close> unwritten and copies into blocks one byte short, in the default branch and
  in \<open>stringrmlast\<close>.
\<close>

lemma stringf_sfmt: "stringf args = sfmt args"
  by (simp add: stringf_def sfmt_def)

lemma promptf_fprintf_clear: "promptf args = fprintf_clear args"
  by (simp add: promptf_def fprintf_clear_def stringf_sfmt)

lemma c_string_unwritten: "c_string (malloc 1) = Inl Indeterminate_Read"
  by (simp add: c_string_def malloc_def PTRDIFF_MAX_def)

lemma promptf_unwritten:
  "promptf [Pct_s (literal prompt), Pct_s (malloc 1)] = Inl Indeterminate_Read"
proof -
  have "vsnprintf [Pct_s (literal prompt), Pct_s (malloc 1)] = Inl Indeterminate_Read"
    by (simp only: vsnprintf.simps c_string_literal c_string_unwritten bind_res_def sum.case)
  then show ?thesis
    by (simp only: promptf_def stringf_def bind_res_def sum.case)
qed

lemma mycutils_step_unwritten:
  assumes "btemp st = malloc 1"
  shows "scans_mycutils_step prompt st env = Crashed Indeterminate_Read"
  unfolding scans_mycutils_step_def assms promptf_unwritten by simp

lemma scans_mycutils_first_prompt:
  "scans_mycutils prompt dev (env # envs) = Crashed Indeterminate_Read"
proof -
  have "scans_mycutils_step prompt
          \<lparr>buf = malloc 1, btemp = malloc 1, tty = dev, shown = [], errlog = []\<rparr> env
        = Crashed Indeterminate_Read"
    by (rule mycutils_step_unwritten) simp
  then show ?thesis
    unfolding scans_mycutils_def by simp
qed

lemma strcpy_short:
  assumes "c_string b = Inr t" and "length t \<le> PTRDIFF_MAX"
  shows "bind_res (strlen b) (\<lambda>n. strcpy (malloc n) b) = Inl Out_Of_Bounds"
  using assms
  by (simp add: strlen_def strcpy_def bind_res_def malloc_def write_bytes_def)

lemma stringrmlast_overflows:
  assumes "c_string s = Inr t" and "t \<noteq> []" and "length t \<le> PTRDIFF_MAX"
  shows "stringrmlast s = Inl Out_Of_Bounds"
  using assms
  by (simp add: stringrmlast_def strlen_def strcpy_def bind_res_def malloc_def write_bytes_def)

lemma mycutils_step_unfold:
  assumes "promptf [Pct_s (literal prompt), Pct_s (btemp st)] = Inr line"
  shows "scans_mycutils_step prompt st env =
     (if fst (scanc_nowait env (tty st)) = CHR 0x7F then
        (case stringrmlast (btemp st) of
           Inl f \<Rightarrow> Crashed f
         | Inr t \<Rightarrow> Running ((seen line st env)\<lparr>btemp := t\<rparr>))
      else if fst (scanc_nowait env (tty st)) = CHR 0x0A then Returned (seen line st env)
      else
        (case stringf [Pct_s (btemp st), Pct_c (fst (scanc_nowait env (tty st)))] of
           Inl f \<Rightarrow> Crashed f
         | Inr b \<Rightarrow>
             (case bind_res (strlen b) (\<lambda>n. strcpy (malloc n) b) of
                Inl f \<Rightarrow> Crashed f
              | Inr t \<Rightarrow> Running ((seen line st env)\<lparr>buf := b, btemp := t\<rparr>))))"
proof -
  obtain userin dev err where r: "scanc_nowait env (tty st) = (userin, dev, err)"
    by (cases "scanc_nowait env (tty st)")
  have s1: "seen line st env
              = st\<lparr>shown := shown st @ [line], tty := dev, errlog := errlog st @ err\<rparr>"
    by (simp add: seen_def r)
  show ?thesis
    unfolding s1 by (simp add: scans_mycutils_step_def Let_def r assms)
qed

lemma INT_MAX_PTRDIFF_MAX: "n \<le> INT_MAX \<Longrightarrow> n \<le> PTRDIFF_MAX"
  by (simp add: INT_MAX_def PTRDIFF_MAX_def)

lemma mycutils_step_char:
  assumes "fst (scanc_nowait env (tty st)) = c" and "c \<noteq> CHR 0x7F" and "c \<noteq> CHR 0x0A"
    and "c_string (btemp st) = Inr s" and "length prompt + length s < INT_MAX"
  shows "scans_mycutils_step prompt st env = Crashed Out_Of_Bounds"
proof -
  have l: "length prompt + length s \<le> INT_MAX" "length (s @ [c]) \<le> INT_MAX"
    using assms(5) by simp_all
  have p: "promptf [Pct_s (literal prompt), Pct_s (btemp st)] = Inr (prompt_text prompt @ s)"
    unfolding promptf_fprintf_clear by (rule prompt_line [OF assms(4) l(1)])
  have b: "stringf [Pct_s (btemp st), Pct_c c] = Inr (literal (s @ [c]))"
    unfolding stringf_sfmt by (rule sfmt_ok [OF vsnprintf_s_c [OF assms(4)] l(2)])
  have cs: "c_string (literal (s @ [c])) = Inr (takeWhile (\<lambda>c. c \<noteq> NUL) (s @ [c]))"
    by (rule c_string_literal)
  have "length (takeWhile (\<lambda>c. c \<noteq> NUL) (s @ [c])) \<le> length (s @ [c])"
    by (rule length_takeWhile_le)
  then have "length (takeWhile (\<lambda>c. c \<noteq> NUL) (s @ [c])) \<le> PTRDIFF_MAX"
    using l(2) INT_MAX_PTRDIFF_MAX by (meson order_trans)
  then have o: "bind_res (strlen (literal (s @ [c]))) (\<lambda>n. strcpy (malloc n) (literal (s @ [c])))
                  = Inl Out_Of_Bounds"
    by (rule strcpy_short [OF cs])
  show ?thesis
    using assms(2,3)
    by (simp only: mycutils_step_unfold [OF p] assms(1) if_False b o sum.case)
qed

lemma mycutils_step_backspace:
  assumes "fst (scanc_nowait env (tty st)) = CHR 0x7F"
    and "c_string (btemp st) = Inr s" and "s \<noteq> []" and "length prompt + length s \<le> INT_MAX"
  shows "scans_mycutils_step prompt st env = Crashed Out_Of_Bounds"
proof -
  have p: "promptf [Pct_s (literal prompt), Pct_s (btemp st)] = Inr (prompt_text prompt @ s)"
    unfolding promptf_fprintf_clear by (rule prompt_line [OF assms(2,4)])
  have "length s \<le> PTRDIFF_MAX"
    using assms(4) INT_MAX_PTRDIFF_MAX [of "length s"] by simp
  then have "stringrmlast (btemp st) = Inl Out_Of_Bounds"
    by (rule stringrmlast_overflows [OF assms(2,3)])
  then show ?thesis
    by (simp add: mycutils_step_unfold [OF p] assms(1))
qed

lemma holding_fields [simp]:
  "btemp (holding s dev) = literal s"
  "buf (holding s dev) = malloc 1"
  "tty (holding s dev) = dev"
  by (simp_all add: holding_def)

lemma file_prompt_room: "length file_prompt + n < INT_MAX" if "n \<le> 100"
  using that by (simp add: file_prompt_def INT_MAX_def)

text \<open>
  C2. The claim: for the keystrokes \<open>a\<close>, \<open>b\<close>, backspace (127), \<open>c\<close>, newline,
  \<open>scans\<close> returns the string \<open>ac\<close>. The revision of src/main.c does
  (\<open>scans_ab_backspace_c\<close>). The revision of src/mycutils.c does not: its first prompt
  reads \<open>btemp\<close> before anything was stored in it; and started with the empty string in
  \<open>btemp\<close>, it copies the first character with \<open>strcpy\<close> into a block of \<open>strlen\<close>
  bytes, one byte short.
\<close>

theorem scans_mycutils_ab_backspace_c:
  "scans_mycutils file_prompt echo_off (map key (''ab'' @ [CHR 0x7F] @ ''c'' @ [CHR 0x0A]))
     = Crashed Indeterminate_Read
   \<and> scans_mycutils_loop file_prompt (holding [] echo_off)
         (map key (''ab'' @ [CHR 0x7F] @ ''c'' @ [CHR 0x0A]))
     = Crashed Out_Of_Bounds"
proof -
  have 1: "scans_mycutils file_prompt echo_off
             (map key (''ab'' @ [CHR 0x7F] @ ''c'' @ [CHR 0x0A])) = Crashed Indeterminate_Read"
    using scans_mycutils_first_prompt [of file_prompt echo_off] by simp
  have c: "c_string (btemp (holding [] echo_off)) = Inr []"
    by (simp add: c_string_literal)
  have "scans_mycutils_step file_prompt (holding [] echo_off) (key (CHR ''a''))
          = Crashed Out_Of_Bounds"
    using c file_prompt_room [of 0]
    by (intro mycutils_step_char [where c = "CHR ''a''" and s = "[]"]) (simp_all add: scanc_key)
  then have 2: "scans_mycutils_loop file_prompt (holding [] echo_off)
                  (map key (''ab'' @ [CHR 0x7F] @ ''c'' @ [CHR 0x0A])) = Crashed Out_Of_Bounds"
    by simp
  show ?thesis
    using 1 2 by (rule conjI)
qed

lemma scanc_failed_read:
  "fst (scanc_nowait failed_read dev) = NUL"
  "''read()'' \<in> set (snd (snd (scanc_nowait failed_read dev)))"
  by (rule scanc_nowait_read_failed, simp add: failed_read_def)+

text \<open>
  C7. The claim: a failed \<open>read\<close> is logged, \<open>scanc_nowait\<close> returns 0, the editor
  appends it as a \<open>NUL\<close> byte in the default branch, and the session proceeds. In the
  revision of src/mycutils.c the first three hold: \<open>read()\<close> is reported, 0 is
  returned, and \<open>stringf\<close> builds \<open>*buf\<close> as the string, the \<open>NUL\<close> and the terminator.
  Then the default branch copies \<open>*buf\<close> with \<open>strcpy\<close> into a block of
  \<open>strlen(*buf)\<close> bytes, one byte short, and the editor does not go on; from its start
  the editor fails already at the first prompt. The revision of src/main.c copies with
  \<open>sfmt\<close> and goes on (\<open>failed_read_appends_nul\<close>).
\<close>

theorem scans_mycutils_failed_read:
  "fst (scanc_nowait failed_read echo_off) = NUL
   \<and> ''read()'' \<in> set (snd (snd (scanc_nowait failed_read echo_off)))
   \<and> stringf [Pct_s (literal ''hi''), Pct_c NUL] = Inr (Some (map Some (''hi'' @ [NUL, NUL])))
   \<and> scans_mycutils_step file_prompt (holding ''hi'' echo_off) failed_read
       = Crashed Out_Of_Bounds
   \<and> scans_mycutils file_prompt echo_off [failed_read] = Crashed Indeterminate_Read"
proof -
  have c: "c_string (literal ''hi'') = Inr ''hi''"
    by (simp add: c_string_literal NUL_def)
  have 3: "stringf [Pct_s (literal ''hi''), Pct_c NUL] = Inr (Some (map Some (''hi'' @ [NUL, NUL])))"
    using sfmt_ok [OF vsnprintf_s_c [OF c, of NUL]]
    by (simp add: stringf_sfmt literal_def INT_MAX_def)
  have n: "NUL \<noteq> CHR 0x7F" "NUL \<noteq> CHR 0x0A"
    by (simp_all add: NUL_def)
  have 4: "scans_mycutils_step file_prompt (holding ''hi'' echo_off) failed_read
             = Crashed Out_Of_Bounds"
    using c file_prompt_room [of 2] n
    by (intro mycutils_step_char [where c = NUL and s = "''hi''"]) (simp_all add: scanc_failed_read)
  have 5: "scans_mycutils file_prompt echo_off [failed_read] = Crashed Indeterminate_Read"
    by (rule scans_mycutils_first_prompt)
  show ?thesis
    using scanc_failed_read [of echo_off] 3 4 5 by blast
qed

text \<open>
  C10. The claim: after \<open>a\<close>, \<open>b\<close>, backspace, newline the caller receives \<open>ab\<close>, because
  the backspace changes only \<open>btemp\<close>. The revision of src/main.c behaves so
  (\<open>scans_backspace_then_enter\<close>). In the revision of src/mycutils.c the backspace is
  \<open>stringrmlast\<close>, which copies the non-empty string with \<open>strcpy\<close> into a block of
  \<open>strlen\<close> bytes: with \<open>ab\<close> in both buffers the backspace fails, and from its
  start the editor fails at the first prompt; no string is returned.
\<close>

theorem scans_mycutils_backspace_then_enter:
  "scans_mycutils file_prompt echo_off (map key ''ab'' @ [key (CHR 0x7F), key (CHR 0x0A)])
     = Crashed Indeterminate_Read
   \<and> stringrmlast (literal ''ab'') = Inl Out_Of_Bounds
   \<and> scans_mycutils_loop file_prompt ((holding ''ab'' echo_off)\<lparr>buf := literal ''ab''\<rparr>)
         [key (CHR 0x7F), key (CHR 0x0A)]
     = Crashed Out_Of_Bounds"
proof -
  have 1: "scans_mycutils file_prompt echo_off (map key ''ab'' @ [key (CHR 0x7F), key (CHR 0x0A)])
             = Crashed Indeterminate_Read"
    using scans_mycutils_first_prompt [of file_prompt echo_off] by simp
  have c: "c_string (literal ''ab'') = Inr ''ab''"
    by (simp add: c_string_literal NUL_def)
  have 2: "stringrmlast (literal ''ab'') = Inl Out_Of_Bounds"
    by (rule stringrmlast_overflows [OF c]) (simp_all add: PTRDIFF_MAX_def)
  have "scans_mycutils_step file_prompt ((holding ''ab'' echo_off)\<lparr>buf := literal ''ab''\<rparr>)
          (key (CHR 0x7F)) = Crashed Out_Of_Bounds"
    using c file_prompt_room [of 2]
    by (intro mycutils_step_backspace [where s = "''ab''"]) (simp_all add: scanc_key)
  then have 3: "scans_mycutils_loop file_prompt ((holding ''ab'' echo_off)\<lparr>buf := literal ''ab''\<rparr>)
                  [key (CHR 0x7F), key (CHR 0x0A)] = Crashed Out_Of_Bounds"
    by simp
  show ?thesis
    using 1 2 3 by blast
qed

end
